theory Spec2Isabelle
  imports Complex_Main "HOL-Library.Word"
begin

section \<open>MIG-Flash block I/O library and GUI controller\<close>

text \<open>
  A shallow embedding of \<^verbatim>\<open>src/mig/mig_flash.py\<close> and
  \<^verbatim>\<open>src/mig/mig_gui_interface.py\<close>. Python objects are records, mutation is
  explicit state passing, every \<^verbatim>\<open>raise\<close> is a value of type \<open>error\<close>.
  Calls to \<^verbatim>\<open>logger\<close> have no effect on the program state and are left out.
\<close>

subsection \<open>Bytes, constants and errors\<close>

type_synonym byte = "8 word"
type_synonym bytes = "byte list"

text \<open>The Python exceptions the two modules raise or can receive from the handle.\<close>

datatype error =
    ConnectionError string
  | RuntimeError string
  | ValueError string
  | InterruptedError string
  | ZeroDivisionError
  | AttributeError
  | OSError int

definition SECTOR_SIZE :: int where
  "SECTOR_SIZE = 512"

text \<open>Class \<^verbatim>\<open>MemoryMap\<close>: the offsets this development reads.\<close>

definition XCI_HEADER_OFFSET :: int where
  "XCI_HEADER_OFFSET = 0x00100000"

definition XCI_HEADER_SIZE :: int where
  "XCI_HEADER_SIZE = 0x00000200"

definition XCI_DATA_OFFSET :: int where
  "XCI_DATA_OFFSET = 0x00200000"

text \<open>The literal \<^verbatim>\<open>b'HEAD'\<close>.\<close>

definition HEAD :: bytes where
  "HEAD = [0x48, 0x45, 0x41, 0x44]"

subsection \<open>Data structures\<close>

record MIGDeviceInfo =
  path :: string
  label :: string
  is_removable :: bool
  info_firmware_version :: string
  raw_device :: string

record CartridgeInfo =
  inserted :: bool
  authenticated :: bool
  title_id :: string
  title_name :: string
  version :: string
  size_bytes :: int
  trimmed_size :: int

record XCIHeader =
  signature :: bytes
  magic :: bytes
  secure_area_start :: int
  backup_area_start :: int
  title_key_dec_index :: int
  game_card_size :: int
  game_card_header_version :: int
  game_card_flags :: int
  package_id :: int
  valid_data_end :: int
  iv :: bytes
  hfs0_partition_offset :: int
  hfs0_header_size :: int
  sha256_hash :: bytes
  init_data_hash :: bytes
  secure_mode_flag :: int
  title_key_flag :: int
  key_flag :: int
  normal_area_end :: int

text \<open>
  Python's slice \<^verbatim>\<open>data[a:b]\<close> for \<open>0 \<le> a \<le> b\<close>, and
  \<^verbatim>\<open>struct.unpack('<I' | '<Q', s)[0]\<close>: the little-endian unsigned value of
  the bytes of \<open>s\<close>. \<^verbatim>\<open>from_bytes\<close> only unpacks slices that lie inside the
  first 0x200 bytes, so every slice has the length its format asks for.
\<close>

definition py_slice :: "bytes \<Rightarrow> nat \<Rightarrow> nat \<Rightarrow> bytes" where
  "py_slice data a b = take (b - a) (drop a data)"

fun unpack_le :: "bytes \<Rightarrow> int" where
  "unpack_le [] = 0"
| "unpack_le (b # bs) = uint b + 256 * unpack_le bs"

definition from_bytes :: "bytes \<Rightarrow> error + XCIHeader" where
  "from_bytes data =
     (if length data < 0x200 then Inl (ValueError ''XCI header too short'')
      else Inr \<lparr>
        signature = py_slice data 0x000 0x100,
        magic = py_slice data 0x100 0x104,
        secure_area_start = unpack_le (py_slice data 0x104 0x108),
        backup_area_start = unpack_le (py_slice data 0x108 0x10C),
        title_key_dec_index = uint (data ! 0x10C),
        game_card_size = uint (data ! 0x10D),
        game_card_header_version = uint (data ! 0x10E),
        game_card_flags = uint (data ! 0x10F),
        package_id = unpack_le (py_slice data 0x110 0x118),
        valid_data_end = unpack_le (py_slice data 0x118 0x120),
        iv = py_slice data 0x120 0x130,
        hfs0_partition_offset = unpack_le (py_slice data 0x130 0x138),
        hfs0_header_size = unpack_le (py_slice data 0x138 0x140),
        sha256_hash = py_slice data 0x140 0x160,
        init_data_hash = py_slice data 0x160 0x180,
        secure_mode_flag = uint (data ! 0x180),
        title_key_flag = uint (data ! 0x181),
        key_flag = uint (data ! 0x182),
        normal_area_end = unpack_le (py_slice data 0x183 0x187) \<rparr>)"

definition is_valid :: "XCIHeader \<Rightarrow> bool" where
  "is_valid h \<longleftrightarrow> magic h = HEAD"

text \<open>The dictionary \<^verbatim>\<open>sizes\<close> of \<^verbatim>\<open>cart_size_bytes\<close>, looked up with default 0.\<close>

definition sizes :: "int \<rightharpoonup> int" where
  "sizes = map_of
     [(0xFA, 1 * 1024 * 1024 * 1024),
      (0xF8, 2 * 1024 * 1024 * 1024),
      (0xF0, 4 * 1024 * 1024 * 1024),
      (0xE0, 8 * 1024 * 1024 * 1024),
      (0xE1, 16 * 1024 * 1024 * 1024),
      (0xE2, 32 * 1024 * 1024 * 1024)]"

definition cart_size_bytes :: "XCIHeader \<Rightarrow> int" where
  "cart_size_bytes h = (case sizes (game_card_size h) of None \<Rightarrow> 0 | Some v \<Rightarrow> v)"

subsection \<open>Block device\<close>

text \<open>
  The operating-system handle is outside the program. It is modelled by what it answers:
  \<open>transfer h offset n\<close> is the outcome of \<^verbatim>\<open>seek(offset)\<close> followed by
  \<^verbatim>\<open>read(n)\<close> on the handle (the bytes the adapter presents there, or the error the
  call raises), and \<open>close_error h\<close> is the error that releasing the handle raises, if
  any. The theorems below hold for every such handle.
\<close>

record os_handle =
  transfer :: "int \<Rightarrow> int \<Rightarrow> error + bytes"
  close_error :: "error option"

record BlockDevice =
  device_path :: string
  handle :: "os_handle option"
  opened :: bool

text \<open>The calls that \<^verbatim>\<open>close\<close> makes on the operating system, in order.\<close>

datatype oscall = FSCTL_UNLOCK_VOLUME | CloseHandle | file_close

text \<open>
  \<^verbatim>\<open>BlockDevice.close\<close>. The first argument is \<^verbatim>\<open>is_windows()\<close>. The result is
  the exception raised (if any), the device object afterwards and the operating-system
  calls made. The unlock request sits in a \<^verbatim>\<open>try/except: pass\<close>; the release of
  the handle does not, and when it raises the two assignments after it are skipped.
  An object marked open without a handle does not arise from \<^verbatim>\<open>open\<close>; there the
  call fails on \<^verbatim>\<open>None\<close> before it reaches the operating system.
\<close>

definition close :: "bool \<Rightarrow> BlockDevice \<Rightarrow> error option \<times> BlockDevice \<times> oscall list" where
  "close windows d =
     (if \<not> opened d then (None, d, [])
      else
        (case handle d of
           None \<Rightarrow> (Some AttributeError, d, [])
         | Some h \<Rightarrow>
             (let calls = (if windows then [FSCTL_UNLOCK_VOLUME, CloseHandle] else [file_close])
              in case close_error h of
                   Some e \<Rightarrow> (Some e, d, calls)
                 | None \<Rightarrow> (None, d\<lparr>handle := None, opened := False\<rparr>, calls))))"

text \<open>\<^verbatim>\<open>BlockDevice.read_at\<close>: seek, then read.\<close>

definition read_at :: "BlockDevice \<Rightarrow> int \<Rightarrow> int \<Rightarrow> error + bytes" where
  "read_at d offset n =
     (case handle d of
        None \<Rightarrow> Inl AttributeError
      | Some h \<Rightarrow> transfer h offset n)"

subsection \<open>The session: class MIGFlash\<close>

record MIGFlash =
  device :: "BlockDevice option"
  device_info :: "MIGDeviceInfo option"
  connected_flag :: bool
  firmware_version :: "string option"
  cart_info :: "CartridgeInfo option"
  xci_header :: "XCIHeader option"

text \<open>\<^verbatim>\<open>self.device.read_at(...)\<close>, where \<^verbatim>\<open>self.device\<close> may be \<^verbatim>\<open>None\<close>.\<close>

definition device_read_at :: "MIGFlash \<Rightarrow> int \<Rightarrow> int \<Rightarrow> error + bytes" where
  "device_read_at s offset n =
     (case device s of
        None \<Rightarrow> Inl AttributeError
      | Some d \<Rightarrow> read_at d offset n)"

text \<open>
  \<^verbatim>\<open>MIGFlash.disconnect\<close>: errors of \<^verbatim>\<open>close\<close> are swallowed. The result is the
  session afterwards and the operating-system calls made.
\<close>

definition disconnect :: "bool \<Rightarrow> MIGFlash \<Rightarrow> MIGFlash \<times> oscall list" where
  "disconnect windows s =
     (let calls = (case device s of None \<Rightarrow> [] | Some d \<Rightarrow> snd (snd (close windows d)))
      in (s\<lparr>device := None, connected_flag := False, firmware_version := None,
             cart_info := None, xci_header := None\<rparr>, calls))"

text \<open>Property \<^verbatim>\<open>cart_inserted\<close>: the bare \<^verbatim>\<open>except\<close> turns every error into False.\<close>

definition cart_inserted :: "MIGFlash \<Rightarrow> bool" where
  "cart_inserted s =
     (if \<not> connected_flag s then False
      else
        (case device_read_at s XCI_HEADER_OFFSET 4 of
           Inl e \<Rightarrow> False
         | Inr data \<Rightarrow> data = HEAD))"

definition cart_authenticated :: "MIGFlash \<Rightarrow> bool" where
  "cart_authenticated s =
     (case cart_info s of None \<Rightarrow> False | Some ci \<Rightarrow> authenticated ci)"

text \<open>
  \<^verbatim>\<open>MIGFlash.authenticate\<close>. The two guards raise before anything is changed; every
  exception inside the \<^verbatim>\<open>try\<close> (a failed read, a short header) is caught and the
  method returns False. The parsed header is stored before it is checked.
\<close>

definition authenticate :: "MIGFlash \<Rightarrow> (error + bool) \<times> MIGFlash" where
  "authenticate s =
     (if \<not> connected_flag s then (Inl (ConnectionError ''Not connected''), s)
      else if \<not> cart_inserted s then (Inl (RuntimeError ''No cartridge inserted''), s)
      else
        (case device_read_at s XCI_HEADER_OFFSET XCI_HEADER_SIZE of
           Inl e \<Rightarrow> (Inr False, s)
         | Inr header_data \<Rightarrow>
             (case from_bytes header_data of
                Inl e \<Rightarrow> (Inr False, s)
              | Inr h \<Rightarrow>
                  (let s1 = s\<lparr>xci_header := Some h\<rparr>
                   in if is_valid h
                      then (Inr True,
                            s1\<lparr>cart_info := Some \<lparr>inserted = True, authenticated = True,
                                 title_id = '''', title_name = '''', version = '''',
                                 size_bytes = cart_size_bytes h,
                                 trimmed_size = valid_data_end h * 0x200\<rparr>\<rparr>)
                      else (Inr False, s1)))))"

text \<open>\<^verbatim>\<open>MIGFlash.get_xci_header\<close>: authenticates first when the session is not.\<close>

definition get_xci_header :: "MIGFlash \<Rightarrow> (error + XCIHeader option) \<times> MIGFlash" where
  "get_xci_header s =
     (if \<not> cart_authenticated s then
        (case authenticate s of
           (Inl e, s') \<Rightarrow> (Inl e, s')
         | (Inr ok, s') \<Rightarrow>
             (if \<not> ok then (Inl (RuntimeError ''Authentication required''), s')
              else (Inr (xci_header s'), s')))
      else (Inr (xci_header s), s))"

definition get_xci_size :: "MIGFlash \<Rightarrow> (error + int \<times> int) \<times> MIGFlash" where
  "get_xci_size s =
     (case get_xci_header s of
        (Inl e, s') \<Rightarrow> (Inl e, s')
      | (Inr None, s') \<Rightarrow> (Inr (0, 0), s')
      | (Inr (Some header), s') \<Rightarrow>
          (Inr (cart_size_bytes header, valid_data_end header * 0x200), s'))"

text \<open>\<^verbatim>\<open>MIGFlash.read_xci\<close>.\<close>

definition read_xci :: "MIGFlash \<Rightarrow> int \<Rightarrow> int \<Rightarrow> error + bytes" where
  "read_xci s offset n =
     (if \<not> cart_authenticated s then Inl (RuntimeError ''Authentication required'')
      else device_read_at s (XCI_DATA_OFFSET + offset) n)"

subsection \<open>Dumping\<close>

definition chunk_size :: int where
  "chunk_size = 1024 * 1024"

text \<open>
  A progress callback is a Python callable that may keep state of its own (type \<open>'c\<close>)
  and may raise: it returns the exception raised, if any, and its state afterwards.
  A file system maps a file name to the content of the file.
\<close>

type_synonym 'c progress_callback = "'c \<Rightarrow> int \<Rightarrow> int \<Rightarrow> error option \<times> 'c"

type_synonym filesystem = "string \<Rightarrow> bytes option"

text \<open>
  The \<^verbatim>\<open>while offset < dump_size\<close> loop of \<^verbatim>\<open>MIGFlash.dump_xci\<close>. The offset
  advances by the number of bytes the read returned, so the loop does not end when the
  device keeps answering with no data: the result \<open>None\<close> stands for a loop that never
  returns. Otherwise the result is the exception that left the loop (if any), the bytes
  written to the file and the state of the callback.
\<close>

partial_function (option) dump_loop ::
  "MIGFlash \<Rightarrow> int \<Rightarrow> 'c progress_callback option \<Rightarrow> int \<Rightarrow> bytes \<Rightarrow> 'c
     \<Rightarrow> (error option \<times> bytes \<times> 'c) option"
where
  "dump_loop s dump_size progress_callback offset f c =
     (if offset < dump_size then
        (let remaining = dump_size - offset;
             read_size = min chunk_size remaining
         in case read_xci s offset read_size of
              Inl e \<Rightarrow> Some (Some e, f, c)
            | Inr data \<Rightarrow>
                (let f' = f @ data;
                     offset' = offset + int (length data)
                 in case progress_callback of
                      None \<Rightarrow> dump_loop s dump_size progress_callback offset' f' c
                    | Some g \<Rightarrow>
                        (case g c offset' dump_size of
                           (Some e, c') \<Rightarrow> Some (Some e, f', c')
                         | (None, c') \<Rightarrow> dump_loop s dump_size progress_callback offset' f' c')))
      else Some (None, f, c))"

declare dump_loop.simps [code]

text \<open>
  \<^verbatim>\<open>MIGFlash.dump_xci\<close>. The file is opened with mode \<^verbatim>\<open>'wb'\<close> (created or
  truncated) once the sizes are known and keeps what was written when an exception leaves
  the loop. The destination is taken to accept every write.
\<close>

definition dump_xci ::
  "MIGFlash \<Rightarrow> filesystem \<Rightarrow> string \<Rightarrow> bool \<Rightarrow> 'c progress_callback option \<Rightarrow> 'c
     \<Rightarrow> ((error + bool) \<times> MIGFlash \<times> filesystem \<times> 'c) option"
where
  "dump_xci s fs filename trimmed progress_callback c =
     (case (if \<not> cart_authenticated s then
              (case authenticate s of
                 (Inl e, s') \<Rightarrow> (Some e, s')
               | (Inr ok, s') \<Rightarrow>
                   (if \<not> ok then (Some (RuntimeError ''Authentication required''), s')
                    else (None, s')))
            else (None, s)) of
        (Some e, s1) \<Rightarrow> Some (Inl e, s1, fs, c)
      | (None, s1) \<Rightarrow>
          (case get_xci_size s1 of
             (Inl e, s2) \<Rightarrow> Some (Inl e, s2, fs, c)
           | (Inr (total_size, trimmed_size'), s2) \<Rightarrow>
               (let dump_size = (if trimmed then trimmed_size' else total_size)
                in case dump_loop s2 dump_size progress_callback 0 [] c of
                     None \<Rightarrow> None
                   | Some (Some e, f, c') \<Rightarrow> Some (Inl e, s2, fs(filename \<mapsto> f), c')
                   | Some (None, f, c') \<Rightarrow> Some (Inr True, s2, fs(filename \<mapsto> f), c'))))"

subsection \<open>The controller: class MIGController\<close>

datatype MIGEvent =
    DEVICE_CONNECTED | DEVICE_DISCONNECTED | CART_INSERTED | CART_REMOVED
  | AUTH_STARTED | AUTH_SUCCESS | AUTH_FAILED
  | DUMP_STARTED | DUMP_PROGRESS | DUMP_COMPLETE | DUMP_ERROR | ERROR_event

datatype MIGState =
    DISCONNECTED | CONNECTING | CONNECTED | NO_CART | CART_DETECTED
  | AUTHENTICATING | AUTHENTICATED | DUMPING | ERROR

text \<open>
  Event messages. The formatted ones are kept symbolic: \<open>Str e\<close> is \<^verbatim>\<open>str(e)\<close>,
  \<open>DumpingGB n\<close> is \<^verbatim>\<open>f"Dumping {n / (1024*1024*1024):.2f} GB"\<close>, \<open>Percent d t\<close> is
  \<^verbatim>\<open>f"{d / t * 100:.1f}%"\<close> and \<open>DumpCompleteMsg f\<close> is \<^verbatim>\<open>f"Dump complete: {f}"\<close>.
\<close>

datatype message =
    Text string | Str error | DumpingGB int | Percent int int | DumpCompleteMsg string

datatype event_payload = NoData | CartData "CartridgeInfo option"

record MIGEventData =
  event :: MIGEvent
  event_state :: MIGState
  message :: message
  progress :: real
  bytes_done :: int
  bytes_total :: int
  speed_kbps :: int
  eta_seconds :: int
  event_error :: "error option"
  data :: event_payload

text \<open>The worker and monitor threads the controller starts, named by what they run.\<close>

datatype task =
    connect_worker "string option"
  | authenticate_worker
  | dump_worker string bool
  | monitor_thread_body

text \<open>
  The subscriber set with \<^verbatim>\<open>set_event_callback\<close> is taken to record what it
  receives and not to raise: \<open>has_event_callback\<close> says whether one is set and
  \<open>events\<close> is what it has received so far.
\<close>

record MIGController =
  mig :: "MIGFlash option"
  state :: MIGState
  has_event_callback :: bool
  events :: "MIGEventData list"
  worker_thread :: "task option"
  abort_flag :: bool
  monitor_thread :: "task option"
  monitoring :: bool
  ctl_device_info :: "MIGDeviceInfo option"
  ctl_cart_info :: "CartridgeInfo option"
  ctl_xci_header :: "XCIHeader option"

text \<open>The defaults of the dataclass \<^verbatim>\<open>MIGEventData\<close>; the state is filled in on emission.\<close>

definition event_data :: "MIGEvent \<Rightarrow> message \<Rightarrow> MIGEventData" where
  "event_data ev msg =
     \<lparr>event = ev, event_state = DISCONNECTED, message = msg, progress = 0,
      bytes_done = 0, bytes_total = 0, speed_kbps = 0, eta_seconds = 0,
      event_error = None, data = NoData\<rparr>"

definition emit_event :: "MIGController \<Rightarrow> MIGEventData \<Rightarrow> MIGController" where
  "emit_event c d =
     (if has_event_callback c
      then c\<lparr>events := events c @ [d\<lparr>event_state := state c\<rparr>]\<rparr>
      else c)"

definition is_connected :: "MIGController \<Rightarrow> bool" where
  "is_connected c = (case mig c of None \<Rightarrow> False | Some m \<Rightarrow> connected_flag m)"

text \<open>\<^verbatim>\<open>MIGController.authenticate\<close> (synchronous).\<close>

definition MIGController_authenticate :: "MIGController \<Rightarrow> (error + bool) \<times> MIGController" where
  "MIGController_authenticate c =
     (case mig c of
        None \<Rightarrow> (Inl (RuntimeError ''Not connected''), c)
      | Some m \<Rightarrow>
          (case authenticate m of
             (Inl e, m') \<Rightarrow> (Inl e, c\<lparr>mig := Some m'\<rparr>)
           | (Inr success, m') \<Rightarrow>
               (if success
                then (Inr True, c\<lparr>mig := Some m', ctl_xci_header := xci_header m',
                                   ctl_cart_info := cart_info m', state := AUTHENTICATED\<rparr>)
                else (Inr False, c\<lparr>mig := Some m', state := ERROR\<rparr>))))"

text \<open>The body \<^verbatim>\<open>worker\<close> of \<^verbatim>\<open>authenticate_async\<close>.\<close>

definition run_authenticate_worker :: "MIGController \<Rightarrow> MIGController" where
  "run_authenticate_worker c =
     (let c1 = emit_event (c\<lparr>state := AUTHENTICATING\<rparr>)
                 (event_data AUTH_STARTED (Text ''Authenticating...''))
      in case MIGController_authenticate c1 of
           (Inr ok, c2) \<Rightarrow>
             (if ok
              then emit_event c2 ((event_data AUTH_SUCCESS (Text ''Authentication successful''))
                                    \<lparr>data := CartData (ctl_cart_info c2)\<rparr>)
              else emit_event c2 (event_data AUTH_FAILED (Text ''Authentication failed'')))
         | (Inl e, c2) \<Rightarrow>
             emit_event (c2\<lparr>state := ERROR\<rparr>)
               ((event_data AUTH_FAILED (Str e))\<lparr>event_error := Some e\<rparr>))"

text \<open>
  The three asynchronous entry points. Each builds a thread around its worker, stores it
  in \<^verbatim>\<open>_worker_thread\<close> and starts it; none of them looks at the thread stored
  before. The second argument is the runtime's list of threads started and not yet
  finished; the calls return nothing and raise nothing.
\<close>

definition connect_async :: "MIGController \<Rightarrow> task list \<Rightarrow> string option \<Rightarrow> MIGController \<times> task list" where
  "connect_async c running device_path' =
     (c\<lparr>worker_thread := Some (connect_worker device_path')\<rparr>,
      running @ [connect_worker device_path'])"

definition authenticate_async :: "MIGController \<Rightarrow> task list \<Rightarrow> MIGController \<times> task list" where
  "authenticate_async c running =
     (c\<lparr>worker_thread := Some authenticate_worker\<rparr>, running @ [authenticate_worker])"

definition dump_xci_async ::
  "MIGController \<Rightarrow> task list \<Rightarrow> string \<Rightarrow> bool \<Rightarrow> MIGController \<times> task list" where
  "dump_xci_async c running filename trimmed =
     (c\<lparr>worker_thread := Some (dump_worker filename trimmed)\<rparr>,
      running @ [dump_worker filename trimmed])"

definition abort_dump :: "MIGController \<Rightarrow> MIGController" where
  "abort_dump c = c\<lparr>abort_flag := True\<rparr>"

text \<open>\<^verbatim>\<open>MIGController.dump_xci\<close> (synchronous).\<close>

definition MIGController_dump_xci ::
  "MIGController \<Rightarrow> filesystem \<Rightarrow> string \<Rightarrow> bool \<Rightarrow> 'c progress_callback option \<Rightarrow> 'c
     \<Rightarrow> ((error + bool) \<times> MIGController \<times> filesystem \<times> 'c) option"
where
  "MIGController_dump_xci c fs filename trimmed progress_callback cs =
     (case mig c of
        None \<Rightarrow> Some (Inl (RuntimeError ''Not connected''), c, fs, cs)
      | Some m \<Rightarrow>
          (case dump_xci m fs filename trimmed progress_callback cs of
             None \<Rightarrow> None
           | Some (r, m', fs', cs') \<Rightarrow> Some (r, c\<lparr>mig := Some m'\<rparr>, fs', cs')))"

text \<open>
  What the dump worker reads from outside its own thread: whether another thread has
  called \<^verbatim>\<open>abort_dump()\<close> since the previous check of the flag and before the
  \<open>k\<close>-th call of \<^verbatim>\<open>on_progress\<close> checks it, and the values of
  \<^verbatim>\<open>time.time()\<close> (at the start of the worker and in the \<open>k\<close>-th call).
\<close>

record environment =
  abort_requested :: "nat \<Rightarrow> bool"
  start_clock :: real
  clock :: "nat \<Rightarrow> real"

text \<open>Python's \<^verbatim>\<open>int(x)\<close> on a float: truncation towards zero.\<close>

definition py_int :: "real \<Rightarrow> int" where
  "py_int x = (if 0 \<le> x then \<lfloor>x\<rfloor> else \<lceil>x\<rceil>)"

text \<open>
  The closure \<^verbatim>\<open>on_progress\<close> of the dump worker. Its state is the controller (of
  which it reads the flag and the state and to whose subscriber it sends events), the
  number of calls made so far and \<^verbatim>\<open>last_update\<close>. Times, speed and percentage
  are floating-point numbers in the source and real numbers here, so the rounding of the
  reported speed, ETA and percentage is not that of the source; the abort check and the
  order of effects are.
\<close>

definition on_progress ::
  "environment \<Rightarrow> real \<Rightarrow> (MIGController \<times> nat \<times> real) progress_callback" where
  "on_progress env start_time = (\<lambda>(c0, k, last_update) done total.
     (let c = (if abort_requested env k then abort_dump c0 else c0)
      in if abort_flag c then (Some (InterruptedError ''Dump aborted''), (c, Suc k, last_update))
         else
           (let now = clock env k
            in if now - last_update < 0.1 then (None, (c, Suc k, last_update))
               else
                 (let elapsed = now - start_time;
                      speed = (if elapsed > 0 then real_of_int done / elapsed else 0);
                      remaining = total - done;
                      eta = (if speed > 0 then py_int (real_of_int remaining / speed) else 0)
                  in if total = 0 then (Some ZeroDivisionError, (c, Suc k, now))
                     else (None,
                           (emit_event c
                              ((event_data DUMP_PROGRESS (Percent done total))
                                 \<lparr>progress := real_of_int done / real_of_int total * 100,
                                  bytes_done := done, bytes_total := total,
                                  speed_kbps := py_int (speed / 1024),
                                  eta_seconds := eta\<rparr>),
                            Suc k, now))))))"

text \<open>
  What \<^verbatim>\<open>except InterruptedError\<close> catches: the exception raised by
  \<^verbatim>\<open>on_progress\<close>, and an operating-system error with errno 4 (EINTR), which Python
  raises as the subclass \<^verbatim>\<open>InterruptedError\<close> of \<^verbatim>\<open>OSError\<close>.
\<close>

definition is_InterruptedError :: "error \<Rightarrow> bool" where
  "is_InterruptedError e =
     (case e of InterruptedError msg \<Rightarrow> True | OSError errno \<Rightarrow> errno = 4 | _ \<Rightarrow> False)"

text \<open>
  The body \<^verbatim>\<open>worker\<close> of \<^verbatim>\<open>dump_xci_async\<close>. The result is the exception that
  ends the thread uncaught (if any), the controller and the file system; \<open>None\<close> when
  the dump loop never returns. \<^verbatim>\<open>on_progress\<close> works on the controller's flag, state
  and subscriber while \<^verbatim>\<open>dump_xci\<close> works on \<^verbatim>\<open>self._mig\<close> only, so the controller
  after the call is the one \<^verbatim>\<open>on_progress\<close> left with the session
  \<^verbatim>\<open>dump_xci\<close> left.
\<close>

definition run_dump_worker ::
  "environment \<Rightarrow> MIGController \<Rightarrow> filesystem \<Rightarrow> string \<Rightarrow> bool
     \<Rightarrow> (error option \<times> MIGController \<times> filesystem) option"
where
  "run_dump_worker env c0 fs filename trimmed =
     (let c1 = c0\<lparr>abort_flag := False, state := DUMPING\<rparr>
      in case mig c1 of
           None \<Rightarrow> Some (Some AttributeError, c1, fs)
         | Some m \<Rightarrow>
             (case get_xci_size m of
                (Inl e, m') \<Rightarrow> Some (Some e, c1\<lparr>mig := Some m'\<rparr>, fs)
              | (Inr (total_size, trimmed_size'), m') \<Rightarrow>
                  (let dump_size = (if trimmed then trimmed_size' else total_size);
                       c2 = emit_event (c1\<lparr>mig := Some m'\<rparr>)
                              ((event_data DUMP_STARTED (DumpingGB dump_size))
                                 \<lparr>bytes_total := dump_size\<rparr>);
                       start_time = start_clock env
                   in case MIGController_dump_xci c2 fs filename trimmed
                             (Some (on_progress env start_time)) (c2, 0, start_time) of
                        None \<Rightarrow> None
                      | Some (Inr success, cr, fs', (cp, k, last_update)) \<Rightarrow>
                          (let c3 = cp\<lparr>mig := mig cr\<rparr>
                           in if success
                              then Some (None,
                                     emit_event (c3\<lparr>state := AUTHENTICATED\<rparr>)
                                       ((event_data DUMP_COMPLETE (DumpCompleteMsg filename))
                                          \<lparr>bytes_done := dump_size, bytes_total := dump_size,
                                           progress := 100\<rparr>),
                                     fs')
                              else Some (None,
                                     emit_event c3 (event_data DUMP_ERROR (Text ''Dump failed'')),
                                     fs'))
                      | Some (Inl e, cr, fs', (cp, k, last_update)) \<Rightarrow>
                          (let c3 = cp\<lparr>mig := mig cr\<rparr>
                           in if is_InterruptedError e
                              then Some (None,
                                     emit_event (c3\<lparr>state := AUTHENTICATED\<rparr>)
                                       (event_data DUMP_ERROR (Text ''Dump aborted by user'')),
                                     fs')
                              else Some (None,
                                     emit_event (c3\<lparr>state := ERROR\<rparr>)
                                       ((event_data DUMP_ERROR (Str e))\<lparr>event_error := Some e\<rparr>),
                                     fs')))))"

subsection \<open>Device monitoring\<close>

text \<open>
  \<^verbatim>\<open>start_monitoring\<close> returns at once when monitoring is already on; otherwise it
  sets the flag and starts the monitor thread.
\<close>

definition start_monitoring :: "MIGController \<Rightarrow> task list \<Rightarrow> MIGController \<times> task list" where
  "start_monitoring c running =
     (if monitoring c then (c, running)
      else (c\<lparr>monitoring := True, monitor_thread := Some monitor_thread_body\<rparr>,
            running @ [monitor_thread_body]))"

text \<open>
  The monitor thread keeps \<^verbatim>\<open>was_connected\<close> and \<^verbatim>\<open>had_cart\<close>. One poll is the
  \<^verbatim>\<open>try\<close> block of the loop body. With a subscriber that does not raise, the only
  exception in it would be a missing session after the connection check, which leaves
  the two variables as they were.
\<close>

type_synonym monitor_state = "MIGController \<times> bool \<times> bool"

definition monitor_poll :: "monitor_state \<Rightarrow> monitor_state" where
  "monitor_poll = (\<lambda>(c, was_connected, had_cart).
     (let is_conn = is_connected c
      in if was_connected \<and> \<not> is_conn
         then (emit_event (c\<lparr>state := DISCONNECTED\<rparr>)
                 (event_data DEVICE_DISCONNECTED (Text ''Device disconnected'')),
               False, False)
         else if \<not> is_conn then (c, was_connected, had_cart)
         else
           (case mig c of
              None \<Rightarrow> (c, was_connected, had_cart)
            | Some m \<Rightarrow>
                (let has_cart = cart_inserted m;
                     c' = (if \<not> had_cart \<and> has_cart
                           then emit_event (c\<lparr>state := CART_DETECTED\<rparr>)
                                  (event_data CART_INSERTED (Text ''Cartridge inserted''))
                           else if had_cart \<and> \<not> has_cart
                           then emit_event
                                  (c\<lparr>state := NO_CART, ctl_cart_info := None,
                                      ctl_xci_header := None\<rparr>)
                                  (event_data CART_REMOVED (Text ''Cartridge removed''))
                           else c)
                 in (c', is_conn, has_cart)))))"

text \<open>
  The loop \<^verbatim>\<open>while self._monitoring\<close>. Each element of the list is what happens to
  the controller and its device during one \<^verbatim>\<open>time.sleep(interval)\<close> (a cartridge
  is inserted or pulled, another thread disconnects or stops the monitoring); the loop
  runs one poll per element for as long as monitoring is on.
\<close>

fun monitor_loop :: "monitor_state \<Rightarrow> (MIGController \<Rightarrow> MIGController) list \<Rightarrow> monitor_state" where
  "monitor_loop st [] = st"
| "monitor_loop (c, was_connected, had_cart) (during_sleep # rest) =
     (if \<not> monitoring c then (c, was_connected, had_cart)
      else monitor_loop (monitor_poll (during_sleep c, was_connected, had_cart)) rest)"

text \<open>The body \<^verbatim>\<open>monitor\<close> of the monitor thread: one first reading, then the loop.\<close>

definition monitor :: "MIGController \<Rightarrow> (MIGController \<Rightarrow> MIGController) list \<Rightarrow> monitor_state" where
  "monitor c sleeps =
     (let was_connected = is_connected c;
          had_cart = (case mig c of
                        None \<Rightarrow> False
                      | Some m \<Rightarrow> if was_connected then cart_inserted m else False)
      in monitor_loop (c, was_connected, had_cart) sleeps)"

text \<open>
  A change of what the adapter presents: the handle of the connected session answers
  positioned reads with \<open>t\<close> from now on.
\<close>

definition device_presents :: "(int \<Rightarrow> int \<Rightarrow> error + bytes) \<Rightarrow> MIGController \<Rightarrow> MIGController" where
  "device_presents t c =
     c\<lparr>mig := map_option
          (\<lambda>m. m\<lparr>device := map_option
                  (\<lambda>d. d\<lparr>handle := map_option (\<lambda>h. h\<lparr>transfer := t\<rparr>) (handle d)\<rparr>)
                  (device m)\<rparr>)
          (mig c)\<rparr>"

subsection \<open>A simulated adapter\<close>

text \<open>
  Concrete inputs for the theorems below. The simulated handle answers a read at the
  header offset with the given header region and every other read with zero bytes of the
  length asked for. \<open>sim_header\<close> is a header region that passes the presence check
  (it starts with the tag), carries the magic tag at 0x100, capacity class 0xE2 at 0x10D
  and 2,000,000 sectors at 0x118; \<open>blank_header\<close> is what an empty slot presents.
\<close>

definition sim_header :: bytes where
  "sim_header = HEAD @ replicate 252 0 @ HEAD @ replicate 9 0 @ [0xE2] @ replicate 10 0
                  @ [0x80, 0x84, 0x1E, 0, 0, 0, 0, 0] @ replicate 224 0"

definition blank_header :: bytes where
  "blank_header = replicate 512 0"

definition sim_handle :: "bytes \<Rightarrow> os_handle" where
  "sim_handle hdr =
     \<lparr>transfer = (\<lambda>offset n. if offset = XCI_HEADER_OFFSET then Inr (take (nat n) hdr)
                               else Inr (replicate (nat n) 0)),
      close_error = None\<rparr>"

definition broken_handle :: os_handle where
  "broken_handle = \<lparr>transfer = (\<lambda>offset n. Inl (OSError 5)), close_error = None\<rparr>"

definition sim_device :: "os_handle \<Rightarrow> BlockDevice" where
  "sim_device hnd = \<lparr>device_path = ''/dev/sdb'', handle = Some hnd, opened = True\<rparr>"

definition no_cart_info :: CartridgeInfo where
  "no_cart_info = \<lparr>inserted = False, authenticated = False, title_id = [], title_name = [],
                    version = [], size_bytes = 0, trimmed_size = 0\<rparr>"

definition sim_session :: "os_handle \<Rightarrow> MIGFlash" where
  "sim_session hnd =
     \<lparr>device = Some (sim_device hnd), device_info = None, connected_flag = True,
      firmware_version = None, cart_info = None, xci_header = None\<rparr>"

definition sim_controller :: "os_handle \<Rightarrow> MIGController" where
  "sim_controller hnd =
     \<lparr>mig = Some (sim_session hnd), state = NO_CART, has_event_callback = True, events = [],
      worker_thread = None, abort_flag = False, monitor_thread = None, monitoring = False,
      ctl_device_info = None, ctl_cart_info = None, ctl_xci_header = None\<rparr>"


text \<open>An environment in which \<^verbatim>\<open>abort_dump()\<close> is called before the \<open>k\<close>-th check.\<close>

definition abort_before :: "nat \<Rightarrow> environment" where
  "abort_before k =
     \<lparr>abort_requested = (\<lambda>j. j = k), start_clock = 0, clock = (\<lambda>j. 1 + real j)\<rparr>"


text \<open>A header region that passes the presence check but has no magic tag at 0x100.\<close>

definition bad_magic_header :: bytes where
  "bad_magic_header = HEAD @ replicate 508 0"

text \<open>The simulated session after a successful \<^verbatim>\<open>authenticate()\<close>.\<close>

definition sim_authenticated :: MIGFlash where
  "sim_authenticated = snd (authenticate (sim_session (sim_handle sim_header)))"

text \<open>The two edge events of the monitor, as the subscriber receives them.\<close>

definition inserted_event :: MIGEventData where
  "inserted_event = (event_data CART_INSERTED (Text ''Cartridge inserted''))\<lparr>event_state := CART_DETECTED\<rparr>"

definition removed_event :: MIGEventData where
  "removed_event = (event_data CART_REMOVED (Text ''Cartridge removed''))\<lparr>event_state := NO_CART\<rparr>"

text \<open>A controller whose session is connected and holds a device with a handle.\<close>

definition wired :: "MIGController \<Rightarrow> bool" where
  "wired c =
     (case mig c of
        None \<Rightarrow> False
      | Some m \<Rightarrow>
          connected_flag m \<and>
          (case device m of
             None \<Rightarrow> False
           | Some d \<Rightarrow> (case handle d of None \<Rightarrow> False | Some hnd \<Rightarrow> True)))"

section \<open>Properties\<close>

subsection \<open>Header fields\<close>

lemma py_slice_nth:
  "a + n \<le> length bs \<Longrightarrow> py_slice bs a (a + n) = map (\<lambda>i. bs ! (a + i)) [0..<n]"
  by (simp add: py_slice_def list_eq_iff_nth_eq)

lemma valid_data_end_from_bytes:
  assumes "0x200 \<le> length b"
  shows "unpack_le (py_slice b 0x118 0x120) = (\<Sum>i<8. uint (b ! (0x118 + i)) * 256 ^ i)"
proof -
  have "py_slice b 0x118 (0x118 + 8) = map (\<lambda>i. b ! (0x118 + i)) [0..<8]"
    using assms by (intro py_slice_nth) simp
  then have "py_slice b 0x118 0x120 = map (\<lambda>i. b ! (0x118 + i)) [0..<8]" by simp
  then show ?thesis
    by (simp add: upt_rec [of _ 8] lessThan_nat_numeral lessThan_Suc eval_nat_numeral)
qed

lemma cart_size_bytes_table:
  "cart_size_bytes h =
     (if game_card_size h = 0xFA then 1073741824
      else if game_card_size h = 0xF8 then 2147483648
      else if game_card_size h = 0xF0 then 4294967296
      else if game_card_size h = 0xE0 then 8589934592
      else if game_card_size h = 0xE1 then 17179869184
      else if game_card_size h = 0xE2 then 34359738368
      else 0)"
  by (simp add: cart_size_bytes_def sizes_def)

lemma get_xci_size_authenticated:
  "cart_authenticated s \<Longrightarrow> xci_header s = Some h \<Longrightarrow>
     get_xci_size s = (Inr (cart_size_bytes h, valid_data_end h * 512), s)"
  by (simp add: get_xci_size_def get_xci_header_def)

lemma sim_header_length: "length sim_header = 512"
  by (simp add: sim_header_def HEAD_def)

lemma sim_header_magic: "py_slice sim_header 0x100 0x104 = HEAD"
  by (simp add: py_slice_def sim_header_def HEAD_def)

lemma sim_header_class: "sim_header ! 0x10D = 0xE2"
  by (simp add: sim_header_def HEAD_def nth_append)

lemma sim_header_end: "unpack_le (py_slice sim_header 0x118 0x120) = 2000000"
  by (simp add: py_slice_def sim_header_def HEAD_def)

lemma sim_header_tag: "take 4 sim_header = HEAD"
  by (simp add: sim_header_def HEAD_def)

text \<open>
  Claim C5. For every buffer of at least 0x200 bytes, \<^verbatim>\<open>from_bytes\<close> succeeds, takes
  the capacity class code from the byte at offset 0x10D and valid-data-end as the
  little-endian value of the eight bytes at offset 0x118; \<^verbatim>\<open>cart_size_bytes\<close> maps
  the codes 0xFA, 0xF8, 0xF0, 0xE0, 0xE1, 0xE2 to 1, 2, 4, 8, 16, 32 GiB and every other
  code to 0; and the used size reported for a session authenticated with this header is
  valid-data-end times 512.
\<close>

theorem from_bytes_fields:
  assumes "0x200 \<le> length b"
  shows "\<exists>h. from_bytes b = Inr h
           \<and> game_card_size h = uint (b ! 0x10D)
           \<and> valid_data_end h = (\<Sum>i<8. uint (b ! (0x118 + i)) * 256 ^ i)
           \<and> cart_size_bytes h =
               (if b ! 0x10D = 0xFA then 1073741824
                else if b ! 0x10D = 0xF8 then 2147483648
                else if b ! 0x10D = 0xF0 then 4294967296
                else if b ! 0x10D = 0xE0 then 8589934592
                else if b ! 0x10D = 0xE1 then 17179869184
                else if b ! 0x10D = 0xE2 then 34359738368
                else 0)
           \<and> (\<forall>s. cart_authenticated s \<and> xci_header s = Some h \<longrightarrow>
                  fst (get_xci_size s) = Inr (cart_size_bytes h, valid_data_end h * 512))"
proof -
  obtain h where h: "from_bytes b = Inr h"
    using assms by (simp add: from_bytes_def)
  have g: "game_card_size h = uint (b ! 0x10D)"
    using h assms by (auto simp: from_bytes_def)
  have v: "valid_data_end h = unpack_le (py_slice b 0x118 0x120)"
    using h assms by (auto simp: from_bytes_def)
  have w: "\<And>k::int. (uint (b ! 0x10D) = k) = (0 \<le> k \<and> k < 256 \<and> b ! 0x10D = word_of_int k)"
    by (auto simp: word_of_int_uint uint_word_of_int take_bit_int_eq_self)
       (use uint_bounded [of "b ! 0x10D"] in simp)
  have cs: "cart_size_bytes h =
               (if b ! 0x10D = 0xFA then 1073741824
                else if b ! 0x10D = 0xF8 then 2147483648
                else if b ! 0x10D = 0xF0 then 4294967296
                else if b ! 0x10D = 0xE0 then 8589934592
                else if b ! 0x10D = 0xE1 then 17179869184
                else if b ! 0x10D = 0xE2 then 34359738368
                else 0)"
    unfolding cart_size_bytes_table [of h] g by (simp add: w)
  have v': "valid_data_end h = (\<Sum>i<8. uint (b ! (0x118 + i)) * 256 ^ i)"
    unfolding v by (rule valid_data_end_from_bytes [OF assms])
  have u: "\<forall>s. cart_authenticated s \<and> xci_header s = Some h \<longrightarrow>
             fst (get_xci_size s) = Inr (cart_size_bytes h, valid_data_end h * 512)"
    by (simp add: get_xci_size_authenticated)
  from h g v' cs u show ?thesis by blast
qed

text \<open>
  The theorem at the simulated header: the parse succeeds with class 0xE2, hence 32 GiB,
  and a session authenticated with the parsed header reports 2,000,000 * 512 used bytes.
\<close>

theorem from_bytes_fields_witness:
  "0x200 \<le> length sim_header
   \<and> (\<exists>h. from_bytes sim_header = Inr h
          \<and> game_card_size h = 0xE2
          \<and> cart_size_bytes h = 34359738368
          \<and> fst (get_xci_size
                 ((sim_session (sim_handle sim_header))
                    \<lparr>cart_info := Some (no_cart_info\<lparr>authenticated := True\<rparr>),
                     xci_header := Some h\<rparr>))
              = Inr (34359738368, 1024000000))"
proof -
  have len: "0x200 \<le> length sim_header"
    by (simp add: sim_header_length)
  from from_bytes_fields [OF len] obtain h where
    h: "from_bytes sim_header = Inr h"
    and g: "game_card_size h = uint (sim_header ! 0x10D)"
    and c: "cart_size_bytes h = (if sim_header ! 0x10D = 0xFA then 1073741824
                else if sim_header ! 0x10D = 0xF8 then 2147483648
                else if sim_header ! 0x10D = 0xF0 then 4294967296
                else if sim_header ! 0x10D = 0xE0 then 8589934592
                else if sim_header ! 0x10D = 0xE1 then 17179869184
                else if sim_header ! 0x10D = 0xE2 then 34359738368
                else 0)"
    and u: "\<forall>s. cart_authenticated s \<and> xci_header s = Some h \<longrightarrow>
             fst (get_xci_size s) = Inr (cart_size_bytes h, valid_data_end h * 512)"
    by blast
  have e: "valid_data_end h = 2000000"
    using h len by (auto simp: from_bytes_def sim_header_end)
  let ?s = "(sim_session (sim_handle sim_header))
                    \<lparr>cart_info := Some (no_cart_info\<lparr>authenticated := True\<rparr>),
                     xci_header := Some h\<rparr>"
  have a: "cart_authenticated ?s \<and> xci_header ?s = Some h"
    by (simp add: cart_authenticated_def)
  have c': "cart_size_bytes h = 34359738368"
    using c by (simp add: sim_header_class)
  have "fst (get_xci_size ?s) = Inr (34359738368, 1024000000)"
    using u a c' e by simp
  with len h g c' show ?thesis
    by (simp add: sim_header_class)
qed

subsection \<open>Cartridge presence\<close>

text \<open>
  Claim C10. Reading \<^verbatim>\<open>cart_inserted\<close> never raises (in the model it is a total
  function into \<open>bool\<close>, every exception of the read being caught): it is False when
  the session is not connected, False when the four-byte read at the header offset fails,
  and True exactly when the session is connected and that read returns \<^verbatim>\<open>b'HEAD'\<close>.
\<close>

theorem cart_inserted_cases:
  "(\<not> connected_flag s \<longrightarrow> cart_inserted s = False)
   \<and> (\<forall>e. device_read_at s XCI_HEADER_OFFSET 4 = Inl e \<longrightarrow> cart_inserted s = False)
   \<and> (cart_inserted s \<longleftrightarrow> connected_flag s \<and> device_read_at s XCI_HEADER_OFFSET 4 = Inr HEAD)"
  by (auto simp: cart_inserted_def split: sum.splits)

text \<open>
  The three cases at concrete sessions: a disconnected one, one whose reads fail with an
  I/O error, and a connected one whose adapter presents the tag.
\<close>

theorem cart_inserted_cases_witness:
  "\<not> connected_flag ((sim_session (sim_handle sim_header))\<lparr>connected_flag := False\<rparr>)
   \<and> cart_inserted ((sim_session (sim_handle sim_header))\<lparr>connected_flag := False\<rparr>) = False
   \<and> device_read_at (sim_session broken_handle) XCI_HEADER_OFFSET 4 = Inl (OSError 5)
   \<and> cart_inserted (sim_session broken_handle) = False
   \<and> device_read_at (sim_session (sim_handle sim_header)) XCI_HEADER_OFFSET 4 = Inr HEAD
   \<and> cart_inserted (sim_session (sim_handle sim_header)) = True"
proof -
  have a: "\<not> connected_flag ((sim_session (sim_handle sim_header))\<lparr>connected_flag := False\<rparr>)"
    by simp
  have b: "device_read_at (sim_session broken_handle) XCI_HEADER_OFFSET 4 = Inl (OSError 5)"
    by (simp add: device_read_at_def read_at_def sim_session_def sim_device_def broken_handle_def)
  have c: "device_read_at (sim_session (sim_handle sim_header)) XCI_HEADER_OFFSET 4 = Inr HEAD"
    by (simp add: device_read_at_def read_at_def sim_session_def sim_device_def sim_handle_def
        sim_header_tag)
  have d: "connected_flag (sim_session (sim_handle sim_header))"
    by (simp add: sim_session_def)
  from a b c d
    cart_inserted_cases [of "(sim_session (sim_handle sim_header))\<lparr>connected_flag := False\<rparr>"]
    cart_inserted_cases [of "sim_session broken_handle"]
    cart_inserted_cases [of "sim_session (sim_handle sim_header)"]
  show ?thesis by blast
qed

subsection \<open>Closing twice\<close>

text \<open>
  Claim C9. When \<^verbatim>\<open>BlockDevice.close()\<close> has returned without an error, a second
  call returns without an error, leaves the object as it is and makes no call on the
  operating system (no second unlock, no second release of the handle). A second
  \<^verbatim>\<open>MIGFlash.disconnect()\<close> likewise leaves the session as the first one left it and
  makes no call on the operating system; \<^verbatim>\<open>disconnect\<close> never raises.
\<close>

theorem close_disconnect_idempotent:
  "(fst (close w d) = None \<longrightarrow>
      close w (fst (snd (close w d))) = (None, fst (snd (close w d)), []))
   \<and> disconnect w (fst (disconnect w s)) = (fst (disconnect w s), [])"
  by (auto simp: close_def disconnect_def Let_def split: option.splits)

text \<open>
  On the simulated device: the first close releases the handle (and on Windows unlocks
  the volume first), the second does nothing.
\<close>

theorem close_disconnect_idempotent_witness:
  "close True (sim_device (sim_handle sim_header))
     = (None, (sim_device (sim_handle sim_header))\<lparr>handle := None, opened := False\<rparr>,
        [FSCTL_UNLOCK_VOLUME, CloseHandle])
   \<and> close True ((sim_device (sim_handle sim_header))\<lparr>handle := None, opened := False\<rparr>)
     = (None, (sim_device (sim_handle sim_header))\<lparr>handle := None, opened := False\<rparr>, [])
   \<and> snd (disconnect True (sim_session (sim_handle sim_header)))
     = [FSCTL_UNLOCK_VOLUME, CloseHandle]
   \<and> snd (disconnect True (fst (disconnect True (sim_session (sim_handle sim_header))))) = []"
proof -
  have a: "close True (sim_device (sim_handle sim_header))
     = (None, (sim_device (sim_handle sim_header))\<lparr>handle := None, opened := False\<rparr>,
        [FSCTL_UNLOCK_VOLUME, CloseHandle])"
    by (simp add: close_def sim_device_def sim_handle_def)
  have b: "snd (disconnect True (sim_session (sim_handle sim_header)))
     = [FSCTL_UNLOCK_VOLUME, CloseHandle]"
    by (simp add: disconnect_def close_def sim_session_def sim_device_def sim_handle_def)
  from a b
    close_disconnect_idempotent [of True "sim_device (sim_handle sim_header)"
      "sim_session (sim_handle sim_header)"]
  show ?thesis by simp
qed

subsection \<open>Authentication\<close>

lemma authenticate_success:
  assumes "connected_flag s" "cart_inserted s"
    and "device_read_at s XCI_HEADER_OFFSET XCI_HEADER_SIZE = Inr b"
    and "from_bytes b = Inr h" "is_valid h"
  shows "authenticate s =
           (Inr True,
            s\<lparr>xci_header := Some h,
              cart_info := Some \<lparr>inserted = True, authenticated = True, title_id = [],
                                  title_name = [], version = [], size_bytes = cart_size_bytes h,
                                  trimmed_size = valid_data_end h * 512\<rparr>\<rparr>)"
  using assms by (simp add: authenticate_def Let_def)

lemma authenticate_invalid:
  assumes "connected_flag s" "cart_inserted s"
    and "device_read_at s XCI_HEADER_OFFSET XCI_HEADER_SIZE = Inr b"
    and "from_bytes b = Inr h" "\<not> is_valid h"
  shows "authenticate s = (Inr False, s\<lparr>xci_header := Some h\<rparr>)"
  using assms by (simp add: authenticate_def Let_def)

lemma authenticate_not_connected:
  "\<not> connected_flag s \<Longrightarrow> authenticate s = (Inl (ConnectionError ''Not connected''), s)"
  by (simp add: authenticate_def)

lemma authenticate_no_cart:
  "connected_flag s \<Longrightarrow> \<not> cart_inserted s \<Longrightarrow>
     authenticate s = (Inl (RuntimeError ''No cartridge inserted''), s)"
  by (simp add: authenticate_def)

lemma sim_read_header:
  "device_read_at (sim_session (sim_handle hdr)) XCI_HEADER_OFFSET n = Inr (take (nat n) hdr)"
  by (simp add: device_read_at_def read_at_def sim_session_def sim_device_def sim_handle_def)

lemma sim_read_data:
  "0 \<le> offset \<Longrightarrow>
     device_read_at (sim_session (sim_handle hdr)) (XCI_DATA_OFFSET + offset) n
       = Inr (replicate (nat n) 0)"
  by (simp add: device_read_at_def read_at_def sim_session_def sim_device_def sim_handle_def
      XCI_DATA_OFFSET_def XCI_HEADER_OFFSET_def)

lemma sim_cart_inserted: "cart_inserted (sim_session (sim_handle sim_header))"
  by (simp add: cart_inserted_def sim_read_header sim_header_tag) (simp add: sim_session_def)

lemma replicate_4: "replicate 4 x = [x, x, x, x]"
  by (simp add: numeral_eq_Suc)

lemma blank_header_tag: "take 4 blank_header = [0, 0, 0, 0]"
  by (simp add: blank_header_def replicate_4)

lemma sim_no_cart: "\<not> cart_inserted (sim_session (sim_handle blank_header))"
  by (simp add: cart_inserted_def sim_read_header blank_header_tag HEAD_def)

lemma sim_from_bytes:
  "\<exists>h. from_bytes sim_header = Inr h \<and> is_valid h \<and> cart_size_bytes h = 34359738368
        \<and> valid_data_end h = 2000000"
  by (simp add: from_bytes_def sim_header_length is_valid_def sim_header_magic sim_header_class
      sim_header_end cart_size_bytes_table)

lemma sim_authenticate:
  "\<exists>h. from_bytes sim_header = Inr h \<and> is_valid h \<and> cart_size_bytes h = 34359738368
        \<and> valid_data_end h = 2000000
        \<and> authenticate (sim_session (sim_handle sim_header)) =
            (Inr True,
             (sim_session (sim_handle sim_header))
               \<lparr>xci_header := Some h,
                cart_info := Some \<lparr>inserted = True, authenticated = True, title_id = [],
                                    title_name = [], version = [], size_bytes = 34359738368,
                                    trimmed_size = 1024000000\<rparr>\<rparr>)"
proof -
  from sim_from_bytes obtain h where h: "from_bytes sim_header = Inr h" "is_valid h"
    "cart_size_bytes h = 34359738368" "valid_data_end h = 2000000" by blast
  have c: "connected_flag (sim_session (sim_handle sim_header))"
    by (simp add: sim_session_def)
  have r: "device_read_at (sim_session (sim_handle sim_header)) XCI_HEADER_OFFSET XCI_HEADER_SIZE
             = Inr sim_header"
    by (simp add: sim_read_header XCI_HEADER_SIZE_def sim_header_length)
  from authenticate_success [OF c sim_cart_inserted r h(1) h(2)] h show ?thesis
    by auto
qed

lemma sim_authenticated_facts:
  "cart_authenticated sim_authenticated"
  "fst (get_xci_size sim_authenticated) = Inr (34359738368, 1024000000)"
  "device sim_authenticated = Some (sim_device (sim_handle sim_header))"
  using sim_authenticate
  by (auto simp: sim_authenticated_def cart_authenticated_def get_xci_size_def get_xci_header_def
      sim_session_def)

lemma record_self_mig: "mig c = Some m \<Longrightarrow> c\<lparr>mig := Some m\<rparr> = c"
  by (cases c) auto

lemma from_bytes_bad_magic:
  assumes "0x200 \<le> length b" and "py_slice b 0x100 0x104 \<noteq> HEAD"
  shows "\<exists>h. from_bytes b = Inr h \<and> \<not> is_valid h"
  using assms by (simp add: from_bytes_def is_valid_def)

lemma blank_header_facts:
  "0x200 \<le> length blank_header" "py_slice blank_header 0x100 0x104 \<noteq> HEAD"
  by (simp_all add: blank_header_def py_slice_def HEAD_def replicate_4)

lemma bad_magic_header_facts:
  "0x200 \<le> length bad_magic_header" "py_slice bad_magic_header 0x100 0x104 \<noteq> HEAD"
  "take 4 bad_magic_header = HEAD"
  by (simp_all add: bad_magic_header_def py_slice_def HEAD_def replicate_4)

text \<open>
  Claim C2 as stated does not hold. The claim: for every buffer of at least 0x200 bytes
  whose bytes 0x100..0x103 are not the tag, authenticating against a device that presents
  it moves the controller to its fault state. On an empty slot (a header region of
  zeros) \<^verbatim>\<open>MIGFlash.authenticate\<close> raises "No cartridge inserted" at its presence
  guard, the synchronous \<^verbatim>\<open>MIGController.authenticate\<close> lets the exception pass and
  the controller stays in the state it was in, here \<open>NO_CART\<close>, not \<open>ERROR\<close>.
\<close>

theorem blank_header_leaves_state:
  "0x200 \<le> length blank_header
   \<and> py_slice blank_header 0x100 0x104 \<noteq> HEAD
   \<and> device_read_at (sim_session (sim_handle blank_header)) XCI_HEADER_OFFSET XCI_HEADER_SIZE
       = Inr blank_header
   \<and> state (sim_controller (sim_handle blank_header)) = NO_CART
   \<and> MIGController_authenticate (sim_controller (sim_handle blank_header))
       = (Inl (RuntimeError ''No cartridge inserted''), sim_controller (sim_handle blank_header))"
proof -
  have m: "mig (sim_controller (sim_handle blank_header)) = Some (sim_session (sim_handle blank_header))"
    by (simp add: sim_controller_def)
  have c: "connected_flag (sim_session (sim_handle blank_header))"
    by (simp add: sim_session_def)
  have r: "device_read_at (sim_session (sim_handle blank_header)) XCI_HEADER_OFFSET XCI_HEADER_SIZE
       = Inr blank_header"
    by (simp add: sim_read_header XCI_HEADER_SIZE_def blank_header_def)
  have s: "state (sim_controller (sim_handle blank_header)) = NO_CART"
    by (simp add: sim_controller_def)
  show ?thesis
    using m r s blank_header_facts authenticate_no_cart [OF c sim_no_cart]
    by (simp add: MIGController_authenticate_def record_self_mig)
qed

text \<open>
  Claim C2, amended. For every buffer \<open>b\<close> of at least 0x200 bytes whose bytes
  0x100..0x103 are not the tag, the parsed header is not valid, and for a controller whose
  session reads \<open>b\<close> as the header region: \<^verbatim>\<open>MIGFlash.authenticate\<close> never returns
  True and leaves \<^verbatim>\<open>_cart_info\<close> as it was; when the session is connected and the
  presence check passes, \<^verbatim>\<open>MIGController.authenticate\<close> returns False and the
  controller state becomes \<open>ERROR\<close>; otherwise it raises and the controller is left
  unchanged; the worker of \<^verbatim>\<open>authenticate_async\<close> ends in \<open>ERROR\<close> in every case.
  The call never sets the state to \<open>AUTHENTICATED\<close>.
\<close>

theorem bad_magic_never_authenticates:
  assumes "0x200 \<le> length b" and "py_slice b 0x100 0x104 \<noteq> HEAD"
    and "mig c = Some m"
    and "device_read_at m XCI_HEADER_OFFSET XCI_HEADER_SIZE = Inr b"
  shows "(\<exists>h. from_bytes b = Inr h \<and> \<not> is_valid h)
         \<and> fst (authenticate m) \<noteq> Inr True
         \<and> cart_info (snd (authenticate m)) = cart_info m
         \<and> (connected_flag m \<and> cart_inserted m \<longrightarrow>
              fst (MIGController_authenticate c) = Inr False
              \<and> state (snd (MIGController_authenticate c)) = ERROR
              \<and> ctl_cart_info (snd (MIGController_authenticate c)) = ctl_cart_info c)
         \<and> (\<not> (connected_flag m \<and> cart_inserted m) \<longrightarrow>
              (\<exists>e. MIGController_authenticate c = (Inl e, c)))
         \<and> state (run_authenticate_worker c) = ERROR"
proof -
  from from_bytes_bad_magic [OF assms(1,2)] obtain h where
    h: "from_bytes b = Inr h" "\<not> is_valid h" by blast
  have none: "\<not> connected_flag m \<Longrightarrow> authenticate m = (Inl (ConnectionError ''Not connected''), m)"
    by (rule authenticate_not_connected)
  have nocart: "connected_flag m \<Longrightarrow> \<not> cart_inserted m \<Longrightarrow>
      authenticate m = (Inl (RuntimeError ''No cartridge inserted''), m)"
    by (rule authenticate_no_cart)
  have bad: "connected_flag m \<Longrightarrow> cart_inserted m \<Longrightarrow>
      authenticate m = (Inr False, m\<lparr>xci_header := Some h\<rparr>)"
    using assms(4) h by (intro authenticate_invalid)
  have w: "mig (emit_event (c\<lparr>state := AUTHENTICATING\<rparr>) e) = Some m" for e
    using assms(3) by (simp add: emit_event_def)
  consider (a) "\<not> connected_flag m" | (b) "connected_flag m" "\<not> cart_inserted m"
    | (c) "connected_flag m" "cart_inserted m" by blast
  then show ?thesis
  proof cases
    case a
    with none have "authenticate m = (Inl (ConnectionError ''Not connected''), m)" by simp
    with a h assms(3) w show ?thesis
      by (simp add: MIGController_authenticate_def run_authenticate_worker_def record_self_mig
          emit_event_def Let_def)
  next
    case b
    with nocart have "authenticate m = (Inl (RuntimeError ''No cartridge inserted''), m)" by simp
    with b h assms(3) w show ?thesis
      by (simp add: MIGController_authenticate_def run_authenticate_worker_def record_self_mig
          emit_event_def Let_def)
  next
    case c
    with bad have "authenticate m = (Inr False, m\<lparr>xci_header := Some h\<rparr>)" by simp
    with c h assms(3) w show ?thesis
      by (simp add: MIGController_authenticate_def run_authenticate_worker_def
          emit_event_def Let_def)
  qed
qed

text \<open>
  The amended claim on two simulated devices: one that passes the presence check without
  a magic tag at 0x100 (authenticate returns False, state \<open>ERROR\<close>), and an empty slot
  (authenticate raises, controller unchanged, the asynchronous worker ends in \<open>ERROR\<close>).
\<close>

theorem bad_magic_never_authenticates_witness:
  "0x200 \<le> length bad_magic_header
   \<and> py_slice bad_magic_header 0x100 0x104 \<noteq> HEAD
   \<and> connected_flag (sim_session (sim_handle bad_magic_header))
   \<and> cart_inserted (sim_session (sim_handle bad_magic_header))
   \<and> fst (MIGController_authenticate (sim_controller (sim_handle bad_magic_header))) = Inr False
   \<and> state (snd (MIGController_authenticate (sim_controller (sim_handle bad_magic_header)))) = ERROR
   \<and> \<not> (connected_flag (sim_session (sim_handle blank_header))
          \<and> cart_inserted (sim_session (sim_handle blank_header)))
   \<and> (\<exists>e. MIGController_authenticate (sim_controller (sim_handle blank_header))
             = (Inl e, sim_controller (sim_handle blank_header)))
   \<and> state (run_authenticate_worker (sim_controller (sim_handle blank_header))) = ERROR"
proof -
  have m: "mig (sim_controller (sim_handle hdr)) = Some (sim_session (sim_handle hdr))" for hdr
    by (simp add: sim_controller_def)
  have c: "connected_flag (sim_session (sim_handle hdr))" for hdr
    by (simp add: sim_session_def)
  have r1: "device_read_at (sim_session (sim_handle bad_magic_header)) XCI_HEADER_OFFSET
              XCI_HEADER_SIZE = Inr bad_magic_header"
    by (simp add: sim_read_header XCI_HEADER_SIZE_def bad_magic_header_def HEAD_def)
  have r2: "device_read_at (sim_session (sim_handle blank_header)) XCI_HEADER_OFFSET
              XCI_HEADER_SIZE = Inr blank_header"
    by (simp add: sim_read_header XCI_HEADER_SIZE_def blank_header_def)
  have i: "cart_inserted (sim_session (sim_handle bad_magic_header))"
    by (simp add: cart_inserted_def sim_read_header bad_magic_header_facts c)
  from bad_magic_never_authenticates [OF bad_magic_header_facts(1,2) m r1]
    bad_magic_never_authenticates [OF blank_header_facts(1,2) m r2]
    c i sim_no_cart bad_magic_header_facts(1,2)
  show ?thesis by blast
qed

subsection \<open>Sizes\<close>

text \<open>
  Claim C6 as stated does not hold. The claim: on a session that is not authenticated
  \<^verbatim>\<open>get_xci_size\<close> fails rather than attempting authentication itself. On the
  simulated session, which is not authenticated, \<^verbatim>\<open>get_xci_size\<close> authenticates,
  returns the two sizes and leaves the session authenticated.
\<close>

theorem get_xci_size_unauthenticated_succeeds:
  "\<not> cart_authenticated (sim_session (sim_handle sim_header))
   \<and> fst (get_xci_size (sim_session (sim_handle sim_header))) = Inr (34359738368, 1024000000)
   \<and> cart_authenticated (snd (get_xci_size (sim_session (sim_handle sim_header))))"
  using sim_authenticate
  by (auto simp: get_xci_size_def get_xci_header_def cart_authenticated_def sim_session_def)

text \<open>
  Claim C6, amended. For an authenticated session with a stored header,
  \<^verbatim>\<open>get_xci_size\<close> returns (capacity of the header, valid-data-end times 512) and
  leaves the session as it is. For a session that is not authenticated it calls
  \<^verbatim>\<open>authenticate()\<close> first: it fails with "Not connected" or "No cartridge inserted"
  where that call raises, with "Authentication required" where it returns False, and
  where it returns True the session is authenticated afterwards and the sizes are those
  of the header just parsed.
\<close>

theorem get_xci_size_authenticates:
  "(cart_authenticated s \<and> xci_header s = Some h \<longrightarrow>
      get_xci_size s = (Inr (cart_size_bytes h, valid_data_end h * 512), s))
   \<and> (\<not> cart_authenticated s \<and> \<not> connected_flag s \<longrightarrow>
        get_xci_size s = (Inl (ConnectionError ''Not connected''), s))
   \<and> (\<not> cart_authenticated s \<and> connected_flag s \<and> \<not> cart_inserted s \<longrightarrow>
        get_xci_size s = (Inl (RuntimeError ''No cartridge inserted''), s))
   \<and> (\<forall>s'. \<not> cart_authenticated s \<and> authenticate s = (Inr False, s') \<longrightarrow>
        get_xci_size s = (Inl (RuntimeError ''Authentication required''), s'))
   \<and> (\<forall>s'. \<not> cart_authenticated s \<and> authenticate s = (Inr True, s') \<longrightarrow>
        cart_authenticated s'
        \<and> (\<exists>h'. xci_header s' = Some h' \<and> is_valid h'
              \<and> get_xci_size s = (Inr (cart_size_bytes h', valid_data_end h' * 512), s')))"
proof -
  have t: "\<And>s'. authenticate s = (Inr True, s') \<Longrightarrow>
             cart_authenticated s' \<and> (\<exists>h'. xci_header s' = Some h' \<and> is_valid h')"
    by (auto simp: authenticate_def Let_def cart_authenticated_def split: if_splits sum.splits)
  show ?thesis
    using t
    by (auto simp: get_xci_size_authenticated get_xci_size_def get_xci_header_def
        authenticate_not_connected authenticate_no_cart)
qed

text \<open>Each case of the amended claim on a simulated session.\<close>

theorem get_xci_size_authenticates_witness:
  "get_xci_size (sim_session (sim_handle blank_header))
     = (Inl (RuntimeError ''No cartridge inserted''), sim_session (sim_handle blank_header))
   \<and> get_xci_size ((sim_session (sim_handle sim_header))\<lparr>connected_flag := False\<rparr>)
     = (Inl (ConnectionError ''Not connected''),
        (sim_session (sim_handle sim_header))\<lparr>connected_flag := False\<rparr>)
   \<and> fst (get_xci_size (sim_session (sim_handle bad_magic_header)))
     = Inl (RuntimeError ''Authentication required'')
   \<and> fst (authenticate (sim_session (sim_handle sim_header))) = Inr True
   \<and> cart_authenticated (snd (authenticate (sim_session (sim_handle sim_header))))
   \<and> fst (get_xci_size sim_authenticated) = Inr (34359738368, 1024000000)"
proof -
  have c: "connected_flag (sim_session (sim_handle hdr))" for hdr
    by (simp add: sim_session_def)
  have n: "\<not> cart_authenticated (sim_session (sim_handle hdr))" for hdr
    by (simp add: sim_session_def cart_authenticated_def)
  have n': "\<not> cart_authenticated ((sim_session (sim_handle sim_header))\<lparr>connected_flag := False\<rparr>)"
    "\<not> connected_flag ((sim_session (sim_handle sim_header))\<lparr>connected_flag := False\<rparr>)"
    by (simp_all add: sim_session_def cart_authenticated_def)
  have i: "cart_inserted (sim_session (sim_handle bad_magic_header))"
    by (simp add: cart_inserted_def sim_read_header bad_magic_header_facts c)
  have r: "device_read_at (sim_session (sim_handle bad_magic_header)) XCI_HEADER_OFFSET
              XCI_HEADER_SIZE = Inr bad_magic_header"
    by (simp add: sim_read_header XCI_HEADER_SIZE_def bad_magic_header_def HEAD_def)
  from from_bytes_bad_magic [OF bad_magic_header_facts(1,2)] obtain h where
    h: "from_bytes bad_magic_header = Inr h" "\<not> is_valid h" by blast
  have f: "authenticate (sim_session (sim_handle bad_magic_header))
             = (Inr False, (sim_session (sim_handle bad_magic_header))\<lparr>xci_header := Some h\<rparr>)"
    using c i r h by (intro authenticate_invalid)
  from sim_authenticate obtain s' where
    t: "authenticate (sim_session (sim_handle sim_header)) = (Inr True, s')" by blast
  have a: "xci_header sim_authenticated \<noteq> None"
    using sim_authenticate by (auto simp: sim_authenticated_def)
  from get_xci_size_authenticates [of "sim_session (sim_handle blank_header)"]
    get_xci_size_authenticates [of "(sim_session (sim_handle sim_header))\<lparr>connected_flag := False\<rparr>"]
    get_xci_size_authenticates [of "sim_session (sim_handle bad_magic_header)"]
    get_xci_size_authenticates [of "sim_session (sim_handle sim_header)"]
    c n n' sim_no_cart f t sim_authenticated_facts
  show ?thesis by (simp add: sim_authenticated_def)
qed

subsection \<open>Reading image data\<close>

text \<open>
  Claim C1 as stated does not hold. The claim: \<^verbatim>\<open>read_xci(offset, length)\<close> fails
  whenever \<open>offset + length\<close> exceeds the total size of the header. On the simulated
  authenticated session the total size is 34,359,738,368; a read of one byte at offset
  34,359,738,368 does not fail and returns the byte the device presents there.
\<close>

theorem read_xci_past_total:
  "fst (get_xci_size sim_authenticated) = Inr (34359738368, 1024000000)
   \<and> read_xci sim_authenticated 34359738368 1 = Inr [0]"
  using sim_authenticated_facts
  by (simp add: read_xci_def device_read_at_def read_at_def sim_device_def sim_handle_def
      XCI_DATA_OFFSET_def XCI_HEADER_OFFSET_def)

text \<open>
  Claim C1, amended. \<^verbatim>\<open>read_xci\<close> compares nothing with the total size. On a session
  that is not authenticated it fails with "Authentication required"; on every
  authenticated session it returns, for every offset and length, whatever the positioned
  read of the device at the image-data base offset plus \<open>offset\<close> returns (the bytes
  read, or the error of the read).
\<close>

theorem read_xci_unbounded:
  "(\<not> cart_authenticated s \<longrightarrow>
      read_xci s offset n = Inl (RuntimeError ''Authentication required''))
   \<and> (cart_authenticated s \<longrightarrow>
        read_xci s offset n = device_read_at s (XCI_DATA_OFFSET + offset) n)
   \<and> (cart_authenticated s \<and> device s = Some d \<and> handle d = Some hnd \<longrightarrow>
        read_xci s offset n = transfer hnd (XCI_DATA_OFFSET + offset) n)"
  by (simp add: read_xci_def device_read_at_def read_at_def)

text \<open>The amended claim on the simulated session, before and after authentication.\<close>

theorem read_xci_unbounded_witness:
  "\<not> cart_authenticated (sim_session (sim_handle sim_header))
   \<and> read_xci (sim_session (sim_handle sim_header)) 0 512
       = Inl (RuntimeError ''Authentication required'')
   \<and> cart_authenticated sim_authenticated
   \<and> device sim_authenticated = Some (sim_device (sim_handle sim_header))
   \<and> handle (sim_device (sim_handle sim_header)) = Some (sim_handle sim_header)
   \<and> read_xci sim_authenticated 34359738368 1
       = transfer (sim_handle sim_header) (XCI_DATA_OFFSET + 34359738368) 1"
proof -
  have a: "\<not> cart_authenticated (sim_session (sim_handle sim_header))"
    by (simp add: cart_authenticated_def sim_session_def)
  have b: "handle (sim_device (sim_handle sim_header)) = Some (sim_handle sim_header)"
    by (simp add: sim_device_def)
  from a b sim_authenticated_facts
    read_xci_unbounded [of "sim_session (sim_handle sim_header)" 0 512]
    read_xci_unbounded [of sim_authenticated 34359738368 1 "sim_device (sim_handle sim_header)"
      "sim_handle sim_header"]
  show ?thesis by blast
qed

subsection \<open>Asynchronous entry points\<close>

text \<open>
  Claim C3 as stated does not hold. The claim: while one asynchronous operation is in
  flight, a further asynchronous call is rejected, so that at most one is outstanding.
  With a dump (or an authentication) in flight, \<^verbatim>\<open>dump_xci_async\<close> returns normally
  and a second worker thread runs beside the first.
\<close>

theorem second_dump_is_started:
  "snd (dump_xci_async
          ((sim_controller (sim_handle sim_header))
             \<lparr>worker_thread := Some (dump_worker ''first.xci'' True)\<rparr>)
          [dump_worker ''first.xci'' True] ''second.xci'' True)
     = [dump_worker ''first.xci'' True, dump_worker ''second.xci'' True]
   \<and> snd (dump_xci_async
          ((sim_controller (sim_handle sim_header))\<lparr>worker_thread := Some authenticate_worker\<rparr>)
          [authenticate_worker] ''second.xci'' True)
     = [authenticate_worker, dump_worker ''second.xci'' True]"
  by (simp add: dump_xci_async_def)

text \<open>
  Claim C3, amended. \<^verbatim>\<open>connect_async\<close>, \<^verbatim>\<open>authenticate_async\<close> and
  \<^verbatim>\<open>dump_xci_async\<close> never reject a call: whatever threads are running, each starts
  one more worker thread, leaves the earlier ones running, and changes nothing in the
  controller but \<^verbatim>\<open>_worker_thread\<close>, which it overwrites.
\<close>

theorem async_calls_never_rejected:
  "snd (connect_async c running p) = running @ [connect_worker p]
   \<and> snd (authenticate_async c running) = running @ [authenticate_worker]
   \<and> snd (dump_xci_async c running filename trimmed) = running @ [dump_worker filename trimmed]
   \<and> fst (connect_async c running p) = c\<lparr>worker_thread := Some (connect_worker p)\<rparr>
   \<and> fst (authenticate_async c running) = c\<lparr>worker_thread := Some authenticate_worker\<rparr>
   \<and> fst (dump_xci_async c running filename trimmed)
       = c\<lparr>worker_thread := Some (dump_worker filename trimmed)\<rparr>"
  by (simp add: connect_async_def authenticate_async_def dump_xci_async_def)

subsection \<open>Monitoring\<close>

lemma device_presents_wired:
  assumes "mig c = Some m" and "device m = Some d" and "handle d = Some hnd"
  shows "device_presents t c
           = c\<lparr>mig := Some (m\<lparr>device := Some (d\<lparr>handle := Some (hnd\<lparr>transfer := t\<rparr>)\<rparr>)\<rparr>)\<rparr>"
  using assms by (simp add: device_presents_def)

lemma wired_presents:
  assumes "wired c"
  shows "wired (device_presents t c)"
    and "is_connected (device_presents t c)"
    and "\<exists>m. mig (device_presents t c) = Some m \<and> cart_inserted m = (t XCI_HEADER_OFFSET 4 = Inr HEAD)"
    and "events (device_presents t c) = events c"
    and "has_event_callback (device_presents t c) = has_event_callback c"
    and "monitoring (device_presents t c) = monitoring c"
proof -
  from assms obtain m d hnd where
    s: "mig c = Some m" "connected_flag m" "device m = Some d" "handle d = Some hnd"
    by (auto simp: wired_def split: option.splits)
  note e = device_presents_wired [OF s(1) s(3) s(4), of t]
  show "wired (device_presents t c)"
    unfolding e wired_def using s(2) by simp
  show "is_connected (device_presents t c)"
    unfolding e is_connected_def using s(2) by simp
  show "\<exists>m. mig (device_presents t c) = Some m \<and> cart_inserted m = (t XCI_HEADER_OFFSET 4 = Inr HEAD)"
    unfolding e using s(2)
    by (auto simp: cart_inserted_def device_read_at_def read_at_def split: sum.splits)
  show "events (device_presents t c) = events c"
    "has_event_callback (device_presents t c) = has_event_callback c"
    "monitoring (device_presents t c) = monitoring c"
    unfolding e by simp_all
qed

lemma monitor_poll_wired:
  assumes "wired c"
  shows "\<exists>c'. monitor_poll (device_presents t c, True, had) = (c', True, t XCI_HEADER_OFFSET 4 = Inr HEAD)
          \<and> wired c' \<and> monitoring c' = monitoring c
          \<and> has_event_callback c' = has_event_callback c
          \<and> events c' = events c @
               (if \<not> has_event_callback c then []
                else if \<not> had \<and> t XCI_HEADER_OFFSET 4 = Inr HEAD then [inserted_event]
                else if had \<and> t XCI_HEADER_OFFSET 4 \<noteq> Inr HEAD then [removed_event]
                else [])"
proof -
  from wired_presents [OF assms, of t] obtain m where
    m: "mig (device_presents t c) = Some m" "cart_inserted m = (t XCI_HEADER_OFFSET 4 = Inr HEAD)"
    and w: "wired (device_presents t c)" "is_connected (device_presents t c)"
    and e: "events (device_presents t c) = events c"
      "has_event_callback (device_presents t c) = has_event_callback c"
      "monitoring (device_presents t c) = monitoring c"
    by blast
  have w': "wired (x\<lparr>state := st\<rparr>) = wired x" "wired (x\<lparr>ctl_cart_info := ci\<rparr>) = wired x"
    "wired (x\<lparr>ctl_xci_header := xh\<rparr>) = wired x" "wired (x\<lparr>events := ev\<rparr>) = wired x"
    for x st ci xh ev
    by (simp_all add: wired_def)
  show ?thesis
    using m w e
    by (simp add: monitor_poll_def Let_def emit_event_def inserted_event_def removed_event_def w')
qed

text \<open>
  Claim C8. For a monitored controller with a connected device whose presence check
  reads false, false, true, true, false on five consecutive samples, the subscriber
  receives exactly two events, \<open>CART_INSERTED\<close> at the change to true and
  \<open>CART_REMOVED\<close> at the change back to false. This holds whether the first sample is
  the reading the monitor takes when it starts (first conjunct) or the monitor is already
  running with a previous reading of false (second conjunct). A poll whose reading equals
  the previous one emits nothing (third conjunct).
\<close>

theorem monitor_edges:
  assumes "mig c = Some m" and "connected_flag m" and "device m = Some d"
    and "handle d = Some hnd" and "monitoring c"
    and "ta XCI_HEADER_OFFSET 4 \<noteq> Inr HEAD" and "tb XCI_HEADER_OFFSET 4 \<noteq> Inr HEAD"
    and "tc XCI_HEADER_OFFSET 4 = Inr HEAD" and "td XCI_HEADER_OFFSET 4 = Inr HEAD"
    and "te XCI_HEADER_OFFSET 4 \<noteq> Inr HEAD"
  shows "events (fst (monitor (device_presents ta c) (map device_presents [tb, tc, td, te])))
           = events c @ (if has_event_callback c then [inserted_event, removed_event] else [])
         \<and> events (fst (monitor_loop (c, True, False) (map device_presents [ta, tb, tc, td, te])))
           = events c @ (if has_event_callback c then [inserted_event, removed_event] else [])
         \<and> (\<forall>t. events (fst (monitor_poll (device_presents t c, True, t XCI_HEADER_OFFSET 4 = Inr HEAD)))
                  = events c)"
proof -
  have w0: "wired c"
    using assms(1-4) by (simp add: wired_def)
  have loop: "events (fst (monitor_loop (c0, True, False) (map device_presents [tb, tc, td, te])))
           = events c0 @ (if has_event_callback c0 then [inserted_event, removed_event] else [])"
    if c0: "wired c0" "monitoring c0" for c0
  proof -
    from monitor_poll_wired [OF c0(1), of tb False] obtain c2 where
      c2: "monitor_poll (device_presents tb c0, True, False) = (c2, True, False)"
        "wired c2" "monitoring c2" "has_event_callback c2 = has_event_callback c0"
        "events c2 = events c0"
      using assms(7) c0(2) by auto
    from monitor_poll_wired [OF c2(2), of tc False] obtain c3 where
      c3: "monitor_poll (device_presents tc c2, True, False) = (c3, True, True)"
        "wired c3" "monitoring c3" "has_event_callback c3 = has_event_callback c0"
        "events c3 = events c0 @ (if has_event_callback c0 then [inserted_event] else [])"
      using assms(8) c2 by auto
    from monitor_poll_wired [OF c3(2), of td True] obtain c4 where
      c4: "monitor_poll (device_presents td c3, True, True) = (c4, True, True)"
        "wired c4" "monitoring c4" "has_event_callback c4 = has_event_callback c0"
        "events c4 = events c0 @ (if has_event_callback c0 then [inserted_event] else [])"
      using assms(9) c3 by auto
    from monitor_poll_wired [OF c4(2), of te True] obtain c5 where
      c5: "monitor_poll (device_presents te c4, True, True) = (c5, True, False)"
        "events c5 = events c0 @ (if has_event_callback c0 then [inserted_event, removed_event] else [])"
      using assms(10) c4 by auto
    show ?thesis
      using c0 c2 c3 c4 c5 by simp
  qed
  have first: "monitor (device_presents ta c) sleeps
                 = monitor_loop (device_presents ta c, True, False) sleeps" for sleeps
    using wired_presents [OF w0, of ta] assms(6)
    by (auto simp: monitor_def Let_def)
  have a: "events (fst (monitor (device_presents ta c) (map device_presents [tb, tc, td, te])))
           = events c @ (if has_event_callback c then [inserted_event, removed_event] else [])"
    unfolding first
    using loop [of "device_presents ta c"] wired_presents [OF w0, of ta] assms(5) by simp
  from monitor_poll_wired [OF w0, of ta False] obtain c1 where
    c1: "monitor_poll (device_presents ta c, True, False) = (c1, True, False)"
      "wired c1" "monitoring c1" "has_event_callback c1 = has_event_callback c"
      "events c1 = events c"
    using assms(6) assms(5) by auto
  have b: "events (fst (monitor_loop (c, True, False) (map device_presents [ta, tb, tc, td, te])))
           = events c @ (if has_event_callback c then [inserted_event, removed_event] else [])"
    using loop [OF c1(2,3)] c1 assms(5) by simp
  have u: "events (fst (monitor_poll (device_presents t c, True, t XCI_HEADER_OFFSET 4 = Inr HEAD)))
                  = events c" for t
    using monitor_poll_wired [OF w0, of t "t XCI_HEADER_OFFSET 4 = Inr HEAD"] by auto
  from a b u show ?thesis by blast
qed

text \<open>
  On the simulated controller, with an empty slot for false and the simulated cartridge
  for true.
\<close>

theorem monitor_edges_witness:
  "events (fst (monitor
      (device_presents (transfer (sim_handle blank_header))
         ((sim_controller (sim_handle blank_header))\<lparr>monitoring := True\<rparr>))
      (map device_presents
         [transfer (sim_handle blank_header), transfer (sim_handle sim_header),
          transfer (sim_handle sim_header), transfer (sim_handle blank_header)])))
     = [inserted_event, removed_event]
   \<and> events (fst (monitor_loop
      ((sim_controller (sim_handle blank_header))\<lparr>monitoring := True\<rparr>, True, False)
      (map device_presents
         [transfer (sim_handle blank_header), transfer (sim_handle blank_header),
          transfer (sim_handle sim_header), transfer (sim_handle sim_header),
          transfer (sim_handle blank_header)])))
     = [inserted_event, removed_event]
   \<and> events (fst (monitor_poll
      (device_presents (transfer (sim_handle sim_header))
         ((sim_controller (sim_handle blank_header))\<lparr>monitoring := True\<rparr>), True, True)))
     = []"
proof -
  let ?c = "(sim_controller (sim_handle blank_header))\<lparr>monitoring := True\<rparr>"
  let ?a = "transfer (sim_handle blank_header)"
  let ?p = "transfer (sim_handle sim_header)"
  have 1: "mig ?c = Some (sim_session (sim_handle blank_header))"
    and 5: "monitoring ?c" and e: "events ?c = []" "has_event_callback ?c"
    by (simp_all add: sim_controller_def)
  have 2: "connected_flag (sim_session (sim_handle blank_header))"
    and 3: "device (sim_session (sim_handle blank_header))
              = Some (sim_device (sim_handle blank_header))"
    by (simp_all add: sim_session_def)
  have 4: "handle (sim_device (sim_handle blank_header)) = Some (sim_handle blank_header)"
    by (simp add: sim_device_def)
  have a: "?a XCI_HEADER_OFFSET 4 \<noteq> Inr HEAD"
    by (simp add: sim_handle_def blank_header_tag HEAD_def)
  have p: "?p XCI_HEADER_OFFSET 4 = Inr HEAD"
    by (simp add: sim_handle_def sim_header_tag)
  note r = monitor_edges [where ta = ?a and tb = ?a and tc = ?p and td = ?p and te = ?a,
      OF 1 2 3 4 5 a a p p a]
  from r have "events (fst (monitor_poll (device_presents ?p ?c, True,
                   ?p XCI_HEADER_OFFSET 4 = Inr HEAD))) = events ?c"
    by blast
  with p e have u: "events (fst (monitor_poll (device_presents ?p ?c, True, True))) = []"
    by simp
  from r e have "events (fst (monitor (device_presents ?a ?c)
                    (map device_presents [?a, ?p, ?p, ?a]))) = [inserted_event, removed_event]"
    and "events (fst (monitor_loop (?c, True, False)
                    (map device_presents [?a, ?a, ?p, ?p, ?a]))) = [inserted_event, removed_event]"
    by simp_all
  with u show ?thesis by blast
qed

subsection \<open>Dumping\<close>

lemma chunk_size_pos: "0 < chunk_size"
  by (simp add: chunk_size_def)


lemma dump_loop_step:
  assumes "offset < N"
    and "read_xci s offset (min chunk_size (N - offset)) = Inr bs"
    and "g c (offset + int (length bs)) N = (None, c')"
  shows "dump_loop s N (Some g) offset f c
           = dump_loop s N (Some g) (offset + int (length bs)) (f @ bs) c'"
  using assms by (subst dump_loop.simps) (simp add: Let_def)

lemma dump_loop_raise:
  assumes "offset < N"
    and "read_xci s offset (min chunk_size (N - offset)) = Inr bs"
    and "g c (offset + int (length bs)) N = (Some e, c')"
  shows "dump_loop s N (Some g) offset f c = Some (Some e, f @ bs, c')"
  using assms by (subst dump_loop.simps) (simp add: Let_def)

lemma dump_xci_authenticated:
  assumes "cart_authenticated m" and "xci_header m = Some h"
  shows "dump_xci m fs filename trimmed cb cs =
           (case dump_loop m (if trimmed then valid_data_end h * 512 else cart_size_bytes h)
                   cb 0 [] cs of
              None \<Rightarrow> None
            | Some (Some e, f, cs') \<Rightarrow> Some (Inl e, m, fs(filename \<mapsto> f), cs')
            | Some (None, f, cs') \<Rightarrow> Some (Inr True, m, fs(filename \<mapsto> f), cs'))"
  using assms by (simp add: dump_xci_def get_xci_size_authenticated)








subsection \<open>Aborting a dump\<close>

lemma on_progress_abort:
  "abort_requested env k \<Longrightarrow>
     on_progress env st (c, k, lu) d N
       = (Some (InterruptedError ''Dump aborted''), (c\<lparr>abort_flag := True\<rparr>, Suc k, lu))"
  by (simp add: on_progress_def abort_dump_def)

lemma emit_event_appends:
  "emit_event c e
     = c\<lparr>events := events c @ (if has_event_callback c then [e\<lparr>event_state := state c\<rparr>] else [])\<rparr>"
  by (simp add: emit_event_def)

lemma on_progress_pass:
  assumes "\<not> abort_requested env k" and "\<not> abort_flag c" and "N \<noteq> 0"
  shows "\<exists>evs lu'. on_progress env st (c, k, lu) d N
                      = (None, (c\<lparr>events := events c @ evs\<rparr>, Suc k, lu'))"
proof (cases "clock env k - lu < 0.1")
  case True
  with assms have "on_progress env st (c, k, lu) d N = (None, (c\<lparr>events := events c @ []\<rparr>, Suc k, lu))"
    by (simp add: on_progress_def)
  then show ?thesis by blast
next
  case False
  with assms have "\<exists>e. on_progress env st (c, k, lu) d N
                         = (None, (emit_event c e, Suc k, clock env k))"
    by (simp add: on_progress_def Let_def) blast
  then obtain e where
    "on_progress env st (c, k, lu) d N = (None, (emit_event c e, Suc k, clock env k))" by blast
  then have "on_progress env st (c, k, lu) d N
      = (None, (c\<lparr>events := events c @ (if has_event_callback c
                                              then [e\<lparr>event_state := state c\<rparr>] else [])\<rparr>,
                Suc k, clock env k))"
    by (simp only: emit_event_appends)
  then show ?thesis by blast
qed

text \<open>
  When the abort is first seen by check number \<open>k\<close> (counted from the current one) and
  \<open>k\<close> full chunks fit below the dump size, the loop is left by
  \<^verbatim>\<open>InterruptedError\<close> after \<open>k + 1\<close> chunks.
\<close>

lemma dump_loop_abort:
  assumes reads: "\<And>off n. 0 \<le> off \<Longrightarrow> 0 < n \<Longrightarrow>
            \<exists>bs. read_xci s off n = Inr bs \<and> int (length bs) = n"
  shows "0 \<le> offset \<Longrightarrow> offset + int k * chunk_size < N \<Longrightarrow> \<not> abort_flag c \<Longrightarrow>
         (\<forall>j<k. \<not> abort_requested env (i + j)) \<Longrightarrow> abort_requested env (i + k) \<Longrightarrow>
         \<exists>f' evs lu'.
           dump_loop s N (Some (on_progress env st)) offset f (c, i, lu)
             = Some (Some (InterruptedError ''Dump aborted''), f',
                     (c\<lparr>abort_flag := True, events := events c @ evs\<rparr>, Suc (i + k), lu'))
           \<and> int (length f') = int (length f) + min (N - offset) (int (Suc k) * chunk_size)"
proof (induction k arbitrary: offset f c i lu)
  case 0
  let ?n = "min chunk_size (N - offset)"
  have lt: "offset < N" using 0 by simp
  have n: "0 < ?n" using lt chunk_size_pos by simp
  from reads [OF 0(1) n] obtain bs where
    bs: "read_xci s offset ?n = Inr bs" "int (length bs) = ?n" by blast
  have cb: "on_progress env st (c, i, lu) (offset + int (length bs)) N
       = (Some (InterruptedError ''Dump aborted''), (c\<lparr>abort_flag := True\<rparr>, Suc i, lu))"
    using 0(5) by (simp add: on_progress_abort)
  have "dump_loop s N (Some (on_progress env st)) offset f (c, i, lu)
      = Some (Some (InterruptedError ''Dump aborted''), f @ bs,
              (c\<lparr>abort_flag := True, events := events c @ []\<rparr>, Suc (i + 0), lu))"
    using dump_loop_raise [where g = "on_progress env st" and c = "(c, i, lu)" and f = f,
        OF lt bs(1) cb] by simp
  moreover have "int (length (f @ bs)) = int (length f) + min (N - offset) (int (Suc 0) * chunk_size)"
    using bs(2) by (simp add: min.commute)
  ultimately show ?case by blast
next
  case (Suc k)
  have nonneg: "0 \<le> int k * chunk_size"
    using chunk_size_pos by simp
  have big: "chunk_size < N - offset"
    using Suc.prems(2) nonneg by (simp add: algebra_simps)
  have lt: "offset < N" using big chunk_size_pos by simp
  have mn: "min chunk_size (N - offset) = chunk_size" using big by simp
  from reads [OF Suc.prems(1) chunk_size_pos] obtain bs where
    bs: "read_xci s offset chunk_size = Inr bs" "int (length bs) = chunk_size" by blast
  have bs': "read_xci s offset (min chunk_size (N - offset)) = Inr bs"
    using bs(1) mn by simp
  have nz: "N \<noteq> 0" using lt Suc.prems(1) by simp
  have na: "\<not> abort_requested env i"
    using Suc.prems(4) by (metis add.right_neutral zero_less_Suc)
  from on_progress_pass [OF na Suc.prems(3) nz, of st lu "offset + int (length bs)"]
  obtain evs lu1 where
    cb: "on_progress env st (c, i, lu) (offset + int (length bs)) N
           = (None, (c\<lparr>events := events c @ evs\<rparr>, Suc i, lu1))" by blast
  let ?c1 = "c\<lparr>events := events c @ evs\<rparr>"
  let ?o = "offset + chunk_size"
  have p1: "0 \<le> ?o" using Suc.prems(1) chunk_size_pos by simp
  have p2: "?o + int k * chunk_size < N"
    using Suc.prems(2) by (simp add: algebra_simps)
  have p3: "\<not> abort_flag ?c1" using Suc.prems(3) by simp
  have p4: "\<forall>j<k. \<not> abort_requested env (Suc i + j)"
    using Suc.prems(4) by auto
  have p5: "abort_requested env (Suc i + k)"
    using Suc.prems(5) by simp
  from Suc.IH [OF p1 p2 p3 p4 p5, of "f @ bs" lu1] obtain f' evs' lu' where
    r: "dump_loop s N (Some (on_progress env st)) ?o (f @ bs) (?c1, Suc i, lu1)
          = Some (Some (InterruptedError ''Dump aborted''), f',
                  (?c1\<lparr>abort_flag := True, events := events ?c1 @ evs'\<rparr>, Suc (Suc i + k), lu'))"
       "int (length f') = int (length (f @ bs)) + min (N - ?o) (int (Suc k) * chunk_size)"
    by blast
  have step: "dump_loop s N (Some (on_progress env st)) offset f (c, i, lu)
          = dump_loop s N (Some (on_progress env st)) ?o (f @ bs) (?c1, Suc i, lu1)"
    using dump_loop_step [where g = "on_progress env st" and c = "(c, i, lu)" and f = f,
        OF lt bs' cb] bs(2) by simp
  have e: "?c1\<lparr>abort_flag := True, events := events ?c1 @ evs'\<rparr>
             = c\<lparr>abort_flag := True, events := events c @ (evs @ evs')\<rparr>"
    by simp
  have len: "int (length f') = int (length f) + min (N - offset) (int (Suc (Suc k)) * chunk_size)"
    using r(2) bs(2) by (simp add: algebra_simps min_def)
  from step r(1) e len show ?case
    by (metis add_Suc_right add_Suc)
qed

text \<open>
  Claim C7. The dump worker runs on an authenticated session whose device answers every
  data read with exactly the bytes asked for. \<^verbatim>\<open>abort_dump()\<close> is called by another
  thread after the checks number 0 to \<open>k - 1\<close> of the flag (each made after one chunk
  of 1 MiB was written) and before check number \<open>k\<close>, while data remains
  (\<open>k\<close> MiB is less than the dump size). Then the worker terminates, the file holds
  \<open>min N ((k + 1) MiB)\<close> bytes, which is at most 1 MiB more than the \<open>k\<close> MiB written
  before the last check that saw the flag clear, the last event is \<open>DUMP_ERROR\<close> with
  "Dump aborted by user", and the controller state is \<open>AUTHENTICATED\<close>, not \<open>ERROR\<close>.
\<close>

theorem abort_within_one_chunk:
  assumes "mig c = Some m" and "cart_authenticated m" and "xci_header m = Some h"
    and "N = (if trimmed then valid_data_end h * 512 else cart_size_bytes h)"
    and "\<forall>off n. 0 \<le> off \<and> 0 < n \<longrightarrow>
           (\<exists>bs. device_read_at m (XCI_DATA_OFFSET + off) n = Inr bs \<and> int (length bs) = n)"
    and "int k * chunk_size < N"
    and "\<forall>j<k. \<not> abort_requested env j" and "abort_requested env k"
  shows "\<exists>c' f. run_dump_worker env c fs filename trimmed = Some (None, c', fs(filename \<mapsto> f))
           \<and> state c' = AUTHENTICATED
           \<and> abort_flag c'
           \<and> (has_event_callback c \<longrightarrow>
                events c' \<noteq> []
                \<and> last (events c') = (event_data DUMP_ERROR (Text ''Dump aborted by user''))
                                        \<lparr>event_state := AUTHENTICATED\<rparr>)
           \<and> int (length f) = min N (int (Suc k) * chunk_size)
           \<and> int (length f) \<le> int k * chunk_size + chunk_size"
proof -
  let ?c1 = "c\<lparr>abort_flag := False, state := DUMPING\<rparr>"
  let ?c2 = "emit_event (?c1\<lparr>mig := Some m\<rparr>)
               ((event_data DUMP_STARTED (DumpingGB N))\<lparr>bytes_total := N\<rparr>)"
  have c2: "mig ?c2 = Some m" "\<not> abort_flag ?c2" "has_event_callback ?c2 = has_event_callback c"
    by (simp_all add: emit_event_def)
  have reads: "\<exists>bs. read_xci m off n = Inr bs \<and> int (length bs) = n"
    if "0 \<le> off" "0 < n" for off n
    using that assms(2,5) by (simp add: read_xci_def)
  have q: "\<forall>j<k. \<not> abort_requested env (0 + j)" "abort_requested env (0 + k)"
    using assms(7,8) by simp_all
  have z: "(0::int) \<le> 0" "0 + int k * chunk_size < N"
    using assms(6) by simp_all
  from dump_loop_abort [where s = m and env = env and st = "start_clock env" and i = 0
      and c = ?c2 and f = "[]" and lu = "start_clock env", OF reads z c2(2) q]
  obtain f evs lu' where
    l: "dump_loop m N (Some (on_progress env (start_clock env))) 0 [] (?c2, 0, start_clock env)
          = Some (Some (InterruptedError ''Dump aborted''), f,
                  (?c2\<lparr>abort_flag := True, events := events ?c2 @ evs\<rparr>, Suc (0 + k), lu'))"
       "int (length f) = int (length ([]::bytes)) + min (N - 0) (int (Suc k) * chunk_size)"
    by blast
  let ?cp = "?c2\<lparr>abort_flag := True, events := events ?c2 @ evs\<rparr>"
  have d: "dump_xci m fs filename trimmed (Some (on_progress env (start_clock env)))
             (?c2, 0, start_clock env)
           = Some (Inl (InterruptedError ''Dump aborted''), m, fs(filename \<mapsto> f),
                   (?cp, Suc k, lu'))"
    unfolding dump_xci_authenticated [OF assms(2,3)] assms(4) [symmetric] l(1) by simp
  have cd: "MIGController_dump_xci ?c2 fs filename trimmed
              (Some (on_progress env (start_clock env))) (?c2, 0, start_clock env)
            = Some (Inl (InterruptedError ''Dump aborted''), ?c2\<lparr>mig := Some m\<rparr>,
                    fs(filename \<mapsto> f), (?cp, Suc k, lu'))"
    using c2(1) d by (simp add: MIGController_dump_xci_def)
  let ?c' = "emit_event (?cp\<lparr>mig := Some m, state := AUTHENTICATED\<rparr>)
               (event_data DUMP_ERROR (Text ''Dump aborted by user''))"
  have g: "get_xci_size m = (Inr (cart_size_bytes h, valid_data_end h * 512), m)"
    by (rule get_xci_size_authenticated [OF assms(2,3)])
  have m1: "mig ?c1 = Some m"
    using assms(1) by simp
  have w: "run_dump_worker env c fs filename trimmed = Some (None, ?c', fs(filename \<mapsto> f))"
    using m1 g cd
    by (simp add: run_dump_worker_def Let_def is_InterruptedError_def assms(4) [symmetric])
  have s: "state ?c' = AUTHENTICATED" "abort_flag ?c'"
    by (simp_all add: emit_event_def)
  have e: "has_event_callback c \<longrightarrow>
             events ?c' \<noteq> []
             \<and> last (events ?c') = (event_data DUMP_ERROR (Text ''Dump aborted by user''))
                                     \<lparr>event_state := AUTHENTICATED\<rparr>"
    by (simp add: emit_event_def)
  have n: "int (length f) = min N (int (Suc k) * chunk_size)"
    using l(2) by simp
  have b: "int (length f) \<le> int k * chunk_size + chunk_size"
    using n by (simp add: algebra_simps)
  from w s e n b show ?thesis by blast
qed

text \<open>
  On the simulated controller, with the abort requested before check number 2: three
  chunks, 3,145,728 bytes, are in the file.
\<close>

theorem abort_within_one_chunk_witness:
  "\<exists>c' f. run_dump_worker (abort_before 2)
              ((sim_controller (sim_handle sim_header))\<lparr>mig := Some sim_authenticated\<rparr>)
              Map.empty ''game.xci'' True
            = Some (None, c', [''game.xci'' \<mapsto> f])
         \<and> state c' = AUTHENTICATED
         \<and> abort_flag c'
         \<and> last (events c') = (event_data DUMP_ERROR (Text ''Dump aborted by user''))
                                 \<lparr>event_state := AUTHENTICATED\<rparr>
         \<and> length f = 3145728"
proof -
  let ?c = "(sim_controller (sim_handle sim_header))\<lparr>mig := Some sim_authenticated\<rparr>"
  from sim_authenticate obtain h where
    h: "valid_data_end h = 2000000" "xci_header sim_authenticated = Some h"
    by (auto simp: sim_authenticated_def)
  have 1: "mig ?c = Some sim_authenticated" by simp
  have 4: "(1024000000::int) = (if True then valid_data_end h * 512 else cart_size_bytes h)"
    using h(1) by simp
  have 5: "\<forall>off n. 0 \<le> off \<and> 0 < n \<longrightarrow>
           (\<exists>bs. device_read_at sim_authenticated (XCI_DATA_OFFSET + off) n = Inr bs
                 \<and> int (length bs) = n)"
    using sim_authenticated_facts(3)
    by (simp add: device_read_at_def read_at_def sim_device_def sim_handle_def
        XCI_DATA_OFFSET_def XCI_HEADER_OFFSET_def)
  have 6: "int 2 * chunk_size < 1024000000"
    by (simp add: chunk_size_def)
  have 7: "\<forall>j<2. \<not> abort_requested (abort_before 2) j"
    and 8: "abort_requested (abort_before 2) 2"
    by (simp_all add: abort_before_def)
  have 9: "has_event_callback ?c"
    by (simp add: sim_controller_def)
  from abort_within_one_chunk [OF 1 sim_authenticated_facts(1) h(2) 4 5 6 7 8,
      of Map.empty "''game.xci''"] 9
  show ?thesis
    by (auto simp: chunk_size_def)
qed

end
